theory Spec2Isabelle
  imports Complex_Main
begin

section \<open>Data model of \<open>src/App.jsx\<close>\<close>

text \<open>
  The component keeps its state in React hooks, one mutable ref (\<open>pollTimer\<close>) and the
  browser (cookie jar, timers, in-flight fetches). The model makes all of it one record that
  every handler takes and returns. JavaScript values are typed as the backend contract types
  them: a field read with \<open>??\<close>, \<open>||\<close> or \<open>typeof\<close> is an \<open>option\<close> (\<open>None\<close> for
  \<open>undefined\<close>/\<open>null\<close>), a string is a \<open>string\<close> (truthy iff non-empty), a byte count is an
  \<open>int\<close>, a time is an \<open>int\<close> of milliseconds.
\<close>

text \<open>One row of the visible list (the objects built at lines 97-107 and 305-315).\<close>

record file_entry =
  id_f :: nat
  name :: string
  size_f :: int
  status :: string
  slug :: string
  s3Url :: string
  error :: string
  deleting :: bool
  persisted :: bool

text \<open>One element of a manifest's \<open>files\<close> array, as the server or the cookie gives it.\<close>

record manifest_file =
  mf_status :: "string option"
  mf_slug :: "string option"
  mf_fileName :: "string option"
  mf_s3Url :: "string option"
  mf_size :: "int option"

text \<open>
  The parsed cookie payload \<open>{updatedAt, files}\<close>. \<open>updatedAt\<close> is the result of
  \<open>Date.parse\<close>: \<open>None\<close> stands for \<open>NaN\<close>. An element of \<open>files\<close> may be \<open>null\<close>.
\<close>

record manifest_payload =
  updatedAt :: "int option"
  files_p :: "manifest_file option list"

definition JOB_POLL_INTERVAL_MS :: real where
  "JOB_POLL_INTERVAL_MS = 2000"

definition MANIFEST_CACHE_TTL_MS :: int where
  "MANIFEST_CACHE_TTL_MS = 5 * 60 * 1000"

text \<open>JavaScript's \<open>a || b\<close> on strings and \<open>a ?? b\<close> on possibly missing values.\<close>

definition or_else :: "string \<Rightarrow> string \<Rightarrow> string" where
  "or_else a b = (if a = [] then b else a)"

definition nullish :: "'a option \<Rightarrow> 'a \<Rightarrow> 'a" where
  "nullish a b = (case a of None \<Rightarrow> b | Some v \<Rightarrow> v)"

definition truthy :: "string option \<Rightarrow> bool" where
  "truthy a = (case a of None \<Rightarrow> False | Some v \<Rightarrow> v \<noteq> [])"

subsection \<open>Manifest entries and the reconciler (lines 94-112)\<close>

text \<open>The filter of line 96: \<open>file && (file.slug || file.fileName)\<close>.\<close>

definition keepEntry :: "manifest_file option \<Rightarrow> bool" where
  "keepEntry file = (case file of None \<Rightarrow> False
     | Some f \<Rightarrow> truthy (mf_slug f) \<or> truthy (mf_fileName f))"

text \<open>The object of lines 97-107; \<open>n\<close> is the identifier \<open>crypto.randomUUID()\<close> returns.\<close>

definition toEntry :: "nat \<Rightarrow> manifest_file \<Rightarrow> file_entry" where
  "toEntry n f =
     \<lparr> id_f = n,
       name = or_else (nullish (mf_fileName f) []) (or_else (nullish (mf_slug f) []) ''Stored file''),
       size_f = (case mf_size f of Some k \<Rightarrow> k | None \<Rightarrow> 0),
       status = nullish (mf_status f) ''uploaded'',
       slug = nullish (mf_slug f) [],
       s3Url = nullish (mf_s3Url f) [],
       error = [],
       deleting = False,
       persisted = True \<rparr>"

text \<open>\<open>.map\<close> over the kept elements; identifiers are drawn in order from a counter.\<close>

fun mapEntries :: "nat \<Rightarrow> manifest_file option list \<Rightarrow> file_entry list" where
  "mapEntries n [] = []"
| "mapEntries n (None # fs) = mapEntries n fs"
| "mapEntries n (Some f # fs) = toEntry n f # mapEntries (Suc n) fs"

definition mapManifestEntriesToState :: "nat \<Rightarrow> manifest_file option list \<Rightarrow> file_entry list" where
  "mapManifestEntriesToState n entries = mapEntries n (filter keepEntry entries)"

definition mergePersistedEntries :: "file_entry list \<Rightarrow> file_entry list \<Rightarrow> file_entry list" where
  "mergePersistedEntries persistedEntries prevFiles =
     (let transient = filter (\<lambda>entry. \<not> persisted entry) prevFiles
      in persistedEntries @ transient)"

subsection \<open>Component state, browser state and environment\<close>

text \<open>
  A pending browser timer is its handle, its delay in milliseconds and its callback: the
  poll closure of \<open>scheduleJobPoll\<close> (with the \<open>pollJobId\<close> and \<open>formLink\<close> it captured) or
  the delayed \<open>updateFile(entryId, {status: 'uploaded'})\<close> of \<open>uploadDocument\<close>.
\<close>

datatype callback = PollJob string string | MarkUploaded nat

type_synonym timer = "nat \<times> real \<times> callback"

text \<open>
  A fetch in flight, with what its continuation captured: the hydrate's \<open>signal\<close> (\<open>None\<close>
  when the caller passed none); the upload's \<open>entryId\<close> and \<open>file.size\<close>; the delete's
  \<open>file.id\<close> (and the slug of its URL); the job start's \<open>formUrlSnapshot\<close>; the poll's \<open>pollJobId\<close> and \<open>formLink\<close>.
\<close>

datatype request =
    HydrateReq "nat option"
  | UploadReq nat int
  | DeleteReq nat string
  | StartReq string
  | PollReq string string

text \<open>
  What \<open>apiFetch\<close> settles with: it throws \<open>Error(message)\<close> on a transport failure, an
  unparsable body or a non-2xx status (\<open>Failure\<close>), or returns the JSON body of the endpoint,
  typed as the backend contract gives it (optional fields are the ones the code reads with
  \<open>??\<close> or \<open>typeof\<close>).
\<close>

datatype response =
    Failure string
  | ManifestOk "manifest_file option list option"
  | UploadOk "string option" "string option" "string option" "int option"
  | DeleteOk
  | FillOk string string "string option"
  | PollOk string "string option"

datatype phase = Fresh | Live | Down

record app_state =
  userId :: string
  formUrl :: string
  files :: "file_entry list"
  manifestError :: string
  jobStatus :: string
  jobId :: string
  jobError :: string
  filledFormUrl :: string
  manifestLoading :: bool
  pollTimer :: "nat option"
  effectSignal :: "nat option"
  phase :: phase
  hasDocument :: bool
  cookie :: "manifest_payload option"
  timers :: "timer list"
  timerSeq :: nat
  requests :: "(nat \<times> request) list"
  requestSeq :: nat
  uuidSeq :: nat
  signals :: "bool list"

text \<open>
  The first nine fields are the \<open>useState\<close> cells of lines 183-191, \<open>pollTimer\<close> is the ref
  of line 192 and \<open>effectSignal\<close> the \<open>AbortController\<close> the mounted effect of line 282 holds.
  The rest is the browser: whether \<open>document\<close> exists, the manifest cookie of this user
  (parsed; \<open>None\<close> when it is missing or does not parse to an object with a \<open>files\<close> array),
  the pending timers, the fetches in flight, the counters that number timer handles
  (positive, as in browsers), fetches and \<open>crypto.randomUUID()\<close> results, and the \<open>aborted\<close>
  flag of every \<open>AbortController\<close> created so far.
\<close>

text \<open>What a handler reads from outside: \<open>Date.now()\<close> and \<open>Math.random()\<close>.\<close>

record env =
  dateNow :: int
  mathRandom :: real

definition init :: "string \<Rightarrow> bool \<Rightarrow> manifest_payload option \<Rightarrow> app_state" where
  "init uid doc c =
     \<lparr> userId = uid, formUrl = [], files = [], manifestError = [], jobStatus = ''idle'',
       jobId = [], jobError = [], filledFormUrl = [], manifestLoading = True,
       pollTimer = None, effectSignal = None, phase = Fresh, hasDocument = doc, cookie = c,
       timers = [], timerSeq = 0, requests = [], requestSeq = 0, uuidSeq = 0, signals = [] \<rparr>"

subsection \<open>Browser primitives\<close>

definition setTimeout_js :: "callback \<Rightarrow> real \<Rightarrow> app_state \<Rightarrow> nat \<times> app_state" where
  "setTimeout_js cb d s =
     (Suc (timerSeq s),
      s\<lparr>timers := timers s @ [(Suc (timerSeq s), d, cb)], timerSeq := Suc (timerSeq s)\<rparr>)"

definition clearTimeout_js :: "nat \<Rightarrow> app_state \<Rightarrow> app_state" where
  "clearTimeout_js h s = s\<lparr>timers := filter (\<lambda>t. fst t \<noteq> h) (timers s)\<rparr>"

text \<open>\<open>apiFetch\<close> up to its first \<open>await\<close>: the request is in flight.\<close>

definition apiFetch :: "request \<Rightarrow> app_state \<Rightarrow> app_state" where
  "apiFetch req s =
     s\<lparr>requests := requests s @ [(requestSeq s, req)], requestSeq := Suc (requestSeq s)\<rparr>"

definition newAbortController :: "app_state \<Rightarrow> nat \<times> app_state" where
  "newAbortController s = (length (signals s), s\<lparr>signals := signals s @ [False]\<rparr>)"

definition abort :: "nat \<Rightarrow> app_state \<Rightarrow> app_state" where
  "abort c s = s\<lparr>signals := (signals s)[c := True]\<rparr>"

text \<open>Line 235: \<open>Boolean(signal?.aborted)\<close>.\<close>

definition isAborted :: "nat option \<Rightarrow> app_state \<Rightarrow> bool" where
  "isAborted signal s =
     (case signal of None \<Rightarrow> False | Some c \<Rightarrow> c < length (signals s) \<and> signals s ! c)"

text \<open>
  JavaScript numbers are IEEE 754 doubles: \<open>*\<close> and \<open>+\<close> give the exact result rounded to
  the nearest double, ties to the even significand. \<open>roundDouble\<close> is that rounding of a real
  result: the spacing of doubles around \<open>x\<close> is 2 to the power \<open>e - 52\<close>, with \<open>e\<close> the
  binary exponent of \<open>x\<close> (not below -1022, where the spacing stays fixed). Results beyond
  the largest double would be \<open>Infinity\<close>; the delay of line 360 stays far below.
\<close>

definition roundEven :: "real \<Rightarrow> int" where
  "roundEven z =
     (let f = \<lfloor>z\<rfloor>
      in if z - of_int f < 1 / 2 then f
         else if z - of_int f > 1 / 2 then f + 1
         else if even f then f else f + 1)"

definition roundDouble :: "real \<Rightarrow> real" where
  "roundDouble x =
     (if x = 0 then 0
      else let e = max \<lfloor>log 2 \<bar>x\<bar>\<rfloor> (- 1022);
               u = (2::real) powr of_int (e - 52)
           in u * of_int (roundEven (x / u)))"


subsection \<open>The Persistent Manifest Cache (lines 53-92, 194-211)\<close>

definition readCookie :: "app_state \<Rightarrow> manifest_payload option" where
  "readCookie s = (if \<not> hasDocument s then None else cookie s)"

text \<open>The result is \<open>{data, isStale}\<close> or \<open>null\<close>.\<close>

definition readManifestCache :: "int \<Rightarrow> app_state \<Rightarrow> (manifest_payload \<times> bool) option" where
  "readManifestCache now s =
     (if userId s = [] then None
      else case readCookie s of
        None \<Rightarrow> None
      | Some parsed \<Rightarrow>
          Some (parsed,
            (case updatedAt parsed of
               None \<Rightarrow> True
             | Some t \<Rightarrow> now - t > MANIFEST_CACHE_TTL_MS)))"

definition writeManifestCache :: "manifest_payload \<Rightarrow> app_state \<Rightarrow> app_state" where
  "writeManifestCache manifest s =
     (if \<not> hasDocument s \<or> userId s = [] then s else s\<lparr>cookie := Some manifest\<rparr>)"

definition summary :: "file_entry \<Rightarrow> manifest_file" where
  "summary file =
     \<lparr> mf_status = Some (status file), mf_slug = Some (slug file),
       mf_fileName = Some (name file), mf_s3Url = Some (s3Url file),
       mf_size = Some (size_f file) \<rparr>"

definition manifestPayload :: "int \<Rightarrow> file_entry list \<Rightarrow> manifest_payload" where
  "manifestPayload now nextFiles =
     \<lparr> updatedAt = Some now,
       files_p = map (\<lambda>file. Some (summary file)) (filter (\<lambda>file. slug file \<noteq> []) nextFiles) \<rparr>"

definition persistFilesToCache :: "int \<Rightarrow> file_entry list \<Rightarrow> app_state \<Rightarrow> app_state" where
  "persistFilesToCache now nextFiles s = writeManifestCache (manifestPayload now nextFiles) s"

subsection \<open>The mutation path (lines 213-231, 293-299)\<close>

definition updateFiles ::
  "(file_entry list \<Rightarrow> file_entry list) \<Rightarrow> bool \<Rightarrow> int \<Rightarrow> app_state \<Rightarrow> app_state" where
  "updateFiles updater skipCache now s =
     (let nxt = updater (files s);
          s1 = (if \<not> skipCache then persistFilesToCache now nxt s else s)
      in s1\<lparr>files := nxt\<rparr>)"

definition applyManifestEntries ::
  "file_entry list \<Rightarrow> bool \<Rightarrow> int \<Rightarrow> app_state \<Rightarrow> app_state" where
  "applyManifestEntries entries skipCache now s =
     updateFiles (\<lambda>prev. mergePersistedEntries entries prev) skipCache now s"

text \<open>\<open>next\<close> of \<open>{...file, ...next}\<close> is the record update it performs.\<close>

definition updateFile ::
  "int \<Rightarrow> nat \<Rightarrow> (file_entry \<Rightarrow> file_entry) \<Rightarrow> app_state \<Rightarrow> app_state" where
  "updateFile now i nxt s =
     updateFiles (\<lambda>prev. map (\<lambda>file. if id_f file = i then nxt file else file) prev) False now s"

definition removeFile :: "int \<Rightarrow> nat \<Rightarrow> app_state \<Rightarrow> app_state" where
  "removeFile now i s = updateFiles (\<lambda>prev. filter (\<lambda>file. id_f file \<noteq> i) prev) False now s"

subsection \<open>The Hydration Orchestrator (lines 233-287, 326-328)\<close>

text \<open>Lines 251-256: the token check, the loading flag and the manifest request.\<close>

definition fetchManifest :: "nat option \<Rightarrow> app_state \<Rightarrow> app_state" where
  "fetchManifest signal s =
     (if isAborted signal s then s
      else apiFetch (HydrateReq signal) (s\<lparr>manifestLoading := True\<rparr>))"

text \<open>\<open>hydrateUploads\<close> up to its \<open>await\<close> (lines 235-256).\<close>

definition hydrateUploads :: "int \<Rightarrow> bool \<Rightarrow> nat option \<Rightarrow> app_state \<Rightarrow> app_state" where
  "hydrateUploads now ignoreCache signal s =
     (if ignoreCache then fetchManifest signal s
      else case readManifestCache now s of
        None \<Rightarrow> fetchManifest signal s
      | Some (data, isStale) \<Rightarrow>
          (let cachedEntries = mapManifestEntriesToState (uuidSeq s) (files_p data);
               s1 = s\<lparr>uuidSeq := uuidSeq s + length cachedEntries\<rparr>
           in if isAborted signal s1 then s1
              else let s2 = (applyManifestEntries cachedEntries True now s1)\<lparr>manifestError := []\<rparr>
                   in if \<not> isStale then s2\<lparr>manifestLoading := False\<rparr>
                      else fetchManifest signal s2))"

text \<open>\<open>hydrateUploads\<close> after its \<open>await\<close> (lines 257-268), the \<open>finally\<close> block included.\<close>

definition hydrateUploads_resume ::
  "int \<Rightarrow> nat option \<Rightarrow> response \<Rightarrow> app_state \<Rightarrow> app_state" where
  "hydrateUploads_resume now signal r s =
     (case r of
        ManifestOk fs \<Rightarrow>
          (if isAborted signal s then s
           else let persistedEntries = mapManifestEntriesToState (uuidSeq s) (nullish fs []);
                    s1 = s\<lparr>uuidSeq := uuidSeq s + length persistedEntries\<rparr>;
                    s2 = (applyManifestEntries persistedEntries False now s1)\<lparr>manifestError := []\<rparr>
                in s2\<lparr>manifestLoading := False\<rparr>)
      | Failure msg \<Rightarrow>
          (if isAborted signal s then s
           else s\<lparr>manifestError := or_else msg ''Failed to load previous uploads.'',
                  manifestLoading := False\<rparr>)
      | _ \<Rightarrow> s)"

definition handleRefreshUploads :: "int \<Rightarrow> app_state \<Rightarrow> app_state" where
  "handleRefreshUploads now s = hydrateUploads now True None s"

text \<open>
  The effect of lines 281-287 and the cleanups of both effects (lines 274-278, 284-286).
  The first cleanup clears the timer and leaves the ref as it is.
\<close>

definition mountEffects :: "int \<Rightarrow> app_state \<Rightarrow> app_state" where
  "mountEffects now s =
     (let (c, s1) = newAbortController s
      in hydrateUploads now False (Some c) (s1\<lparr>effectSignal := Some c\<rparr>))"

definition cleanupEffects :: "app_state \<Rightarrow> app_state" where
  "cleanupEffects s =
     (let s1 = (case pollTimer s of
                  None \<Rightarrow> s
                | Some h \<Rightarrow> if h = 0 then s else clearTimeout_js h s)
      in case effectSignal s1 of
           None \<Rightarrow> s1
         | Some c \<Rightarrow> (abort c s1)\<lparr>effectSignal := None\<rparr>)"

subsection \<open>The Upload State Machine (lines 301-389)\<close>

definition uploadDocument :: "int \<Rightarrow> nat \<Rightarrow> int \<Rightarrow> app_state \<Rightarrow> app_state" where
  "uploadDocument now entryId fileSize s =
     apiFetch (UploadReq entryId fileSize)
       (updateFile now entryId (\<lambda>f. f\<lparr>status := ''uploading'', error := []\<rparr>) s)"

definition uploadDocument_resume ::
  "env \<Rightarrow> nat \<Rightarrow> int \<Rightarrow> response \<Rightarrow> app_state \<Rightarrow> app_state" where
  "uploadDocument_resume e entryId fileSize r s =
     (case r of
        UploadOk st url sl sz \<Rightarrow>
          (let nextStatus = nullish st ''uploaded'';
               s1 = updateFile (dateNow e) entryId
                      (\<lambda>f. f\<lparr>status := nextStatus,
                              s3Url := nullish url [],
                              slug := nullish sl [],
                              error := [],
                              size_f := (case sz of Some k \<Rightarrow> k | None \<Rightarrow> fileSize),
                              persisted := True\<rparr>) s
           in if nextStatus = ''processing''
              then snd (setTimeout_js (MarkUploaded entryId)
                         (roundDouble (1200 + roundDouble (mathRandom e * 1200))) s1)
              else s1)
      | Failure msg \<Rightarrow>
          updateFile (dateNow e) entryId
            (\<lambda>f. f\<lparr>status := ''error'', error := or_else msg ''Upload failed'',
                    s3Url := [], slug := []\<rparr>) s
      | _ \<Rightarrow> s)"

text \<open>The entries of lines 305-315 for the selected \<open>(name, size)\<close> pairs.\<close>

fun newEntries :: "nat \<Rightarrow> (string \<times> int) list \<Rightarrow> file_entry list" where
  "newEntries n [] = []"
| "newEntries n (file # rest) =
     \<lparr> id_f = n, name = fst file, size_f = snd file, status = ''uploading'', slug = [],
       s3Url = [], error = [], deleting = False, persisted = False \<rparr> # newEntries (Suc n) rest"

definition handleFilesSelected :: "int \<Rightarrow> (string \<times> int) list \<Rightarrow> app_state \<Rightarrow> app_state" where
  "handleFilesSelected now selectedFiles s =
     (if selectedFiles = [] then s
      else let entries = newEntries (uuidSeq s) selectedFiles;
               s1 = updateFiles (\<lambda>prev. prev @ entries) False now
                      (s\<lparr>uuidSeq := uuidSeq s + length selectedFiles\<rparr>)
           in fold (\<lambda>(entry, file). uploadDocument now (id_f entry) (snd file))
                (zip entries selectedFiles) s1)"

definition handleDelete :: "int \<Rightarrow> file_entry \<Rightarrow> app_state \<Rightarrow> app_state" where
  "handleDelete now file s =
     (if slug file = [] then removeFile now (id_f file) s
      else apiFetch (DeleteReq (id_f file) (slug file))
             (updateFile now (id_f file) (\<lambda>f. f\<lparr>deleting := True, error := []\<rparr>) s))"

definition handleDelete_resume :: "int \<Rightarrow> nat \<Rightarrow> response \<Rightarrow> app_state \<Rightarrow> app_state" where
  "handleDelete_resume now i r s =
     (case r of
        DeleteOk \<Rightarrow> removeFile now i s
      | Failure msg \<Rightarrow>
          updateFile now i (\<lambda>f. f\<lparr>deleting := False, error := or_else msg ''Unable to delete''\<rparr>) s
      | _ \<Rightarrow> s)"

subsection \<open>The Job Polling State Machine (lines 127-135, 289-291, 391-456)\<close>

text \<open>
  \<open>new URL(url)\<close> is the browser's: \<open>U url\<close> is the \<open>protocol\<close> of the parsed URL, or
  \<open>None\<close> when the constructor throws.
\<close>

definition isValidHttpUrl :: "(string \<Rightarrow> string option) \<Rightarrow> string \<Rightarrow> bool" where
  "isValidHttpUrl U url =
     (if url = [] then False
      else case U url of
        None \<Rightarrow> False
      | Some protocol \<Rightarrow> protocol = ''http:'' \<or> protocol = ''https:'')"

definition allUploadsComplete :: "app_state \<Rightarrow> bool" where
  "allUploadsComplete s =
     (length (files s) > 0 \<and> list_all (\<lambda>file. status file = ''uploaded'') (files s))"

definition canStartFill :: "(string \<Rightarrow> string option) \<Rightarrow> app_state \<Rightarrow> bool" where
  "canStartFill U s =
     (isValidHttpUrl U (formUrl s) \<and> allUploadsComplete s \<and>
      jobStatus s \<noteq> ''filling'' \<and> jobStatus s \<noteq> ''queued'')"

definition clearExistingPoll :: "app_state \<Rightarrow> app_state" where
  "clearExistingPoll s =
     (case pollTimer s of
        None \<Rightarrow> s
      | Some h \<Rightarrow> if h = 0 then s else (clearTimeout_js h s)\<lparr>pollTimer := None\<rparr>)"

definition scheduleJobPoll :: "string \<Rightarrow> string \<Rightarrow> app_state \<Rightarrow> app_state" where
  "scheduleJobPoll pollJobId formLink s =
     (let s1 = clearExistingPoll s;
          (h, s2) = setTimeout_js (PollJob pollJobId formLink) JOB_POLL_INTERVAL_MS s1
      in s2\<lparr>pollTimer := Some h\<rparr>)"

text \<open>The timer callback of lines 400-418 after its \<open>await\<close>.\<close>

definition scheduleJobPoll_resume ::
  "string \<Rightarrow> string \<Rightarrow> response \<Rightarrow> app_state \<Rightarrow> app_state" where
  "scheduleJobPoll_resume pollJobId formLink r s =
     (case r of
        PollOk st url \<Rightarrow>
          (let s1 = s\<lparr>jobStatus := st, filledFormUrl := nullish url []\<rparr>
           in if st = ''complete'' \<or> st = ''error''
              then clearExistingPoll
                     (s1\<lparr>jobError := (if st = ''error'' then ''Pipeline reported an error.'' else [])\<rparr>)
              else scheduleJobPoll pollJobId formLink s1)
      | Failure msg \<Rightarrow>
          clearExistingPoll (s\<lparr>jobStatus := ''error'', jobError := or_else msg ''Polling failed''\<rparr>)
      | _ \<Rightarrow> s)"

definition handleStartFill :: "(string \<Rightarrow> string option) \<Rightarrow> app_state \<Rightarrow> app_state" where
  "handleStartFill U s =
     (if \<not> canStartFill U s then s
      else apiFetch (StartReq (formUrl s))
             ((clearExistingPoll s)\<lparr>jobStatus := ''queued'', jobId := [], jobError := [],
                                     filledFormUrl := []\<rparr>))"

definition handleStartFill_resume :: "string \<Rightarrow> response \<Rightarrow> app_state \<Rightarrow> app_state" where
  "handleStartFill_resume formUrlSnapshot r s =
     (case r of
        FillOk jid st url \<Rightarrow>
          (let s1 = s\<lparr>jobId := jid, jobStatus := st, filledFormUrl := nullish url []\<rparr>
           in if st = ''complete'' then s1
              else if st = ''error'' then s1\<lparr>jobError := ''Pipeline reported an error.''\<rparr>
              else scheduleJobPoll jid formUrlSnapshot s1)
      | Failure msg \<Rightarrow>
          s\<lparr>jobStatus := ''error'', jobError := or_else msg ''Failed to start form filling''\<rparr>
      | _ \<Rightarrow> s)"

subsection \<open>Events\<close>

text \<open>
  The component is driven by its mount (with or without the development double invocation
  of effects), its unmount, the user's actions, the settling of a fetch and the expiry of a
  timer. A settled fetch or an expired timer runs the continuation stored with it.
\<close>

datatype event =
    Mount bool
  | Unmount
  | SetFormUrl string
  | FilesSelected "(string \<times> int) list"
  | RefreshUploads
  | Delete file_entry
  | StartFill
  | Respond nat response
  | TimerFires nat

fun answers :: "request \<Rightarrow> response \<Rightarrow> bool" where
  "answers req (Failure msg) = True"
| "answers (HydrateReq signal) (ManifestOk fs) = True"
| "answers (UploadReq i k) (UploadOk st url sl sz) = True"
| "answers (DeleteReq i sl) DeleteOk = True"
| "answers (StartReq snap) (FillOk jid st url) = True"
| "answers (PollReq j l) (PollOk st url) = True"
| "answers req r = False"

fun resume :: "env \<Rightarrow> request \<Rightarrow> response \<Rightarrow> app_state \<Rightarrow> app_state" where
  "resume e (HydrateReq signal) r s = hydrateUploads_resume (dateNow e) signal r s"
| "resume e (UploadReq i k) r s = uploadDocument_resume e i k r s"
| "resume e (DeleteReq i sl) r s = handleDelete_resume (dateNow e) i r s"
| "resume e (StartReq snap) r s = handleStartFill_resume snap r s"
| "resume e (PollReq j l) r s = scheduleJobPoll_resume j l r s"

fun runCallback :: "env \<Rightarrow> callback \<Rightarrow> app_state \<Rightarrow> app_state" where
  "runCallback e (PollJob j l) s = apiFetch (PollReq j l) s"
| "runCallback e (MarkUploaded i) s =
     updateFile (dateNow e) i (\<lambda>f. f\<lparr>status := ''uploaded''\<rparr>) s"

fun step :: "(string \<Rightarrow> string option) \<Rightarrow> env \<Rightarrow> event \<Rightarrow> app_state \<Rightarrow> app_state" where
  "step U e (Mount strict) s =
     (let s1 = mountEffects (dateNow e) (s\<lparr>phase := Live\<rparr>)
      in if strict then mountEffects (dateNow e) (cleanupEffects s1) else s1)"
| "step U e Unmount s = (cleanupEffects s)\<lparr>phase := Down\<rparr>"
| "step U e (SetFormUrl u) s = s\<lparr>formUrl := u\<rparr>"
| "step U e (FilesSelected selectedFiles) s = handleFilesSelected (dateNow e) selectedFiles s"
| "step U e RefreshUploads s = handleRefreshUploads (dateNow e) s"
| "step U e (Delete file) s = handleDelete (dateNow e) file s"
| "step U e StartFill s = handleStartFill U s"
| "step U e (Respond h r) s =
     (case map_of (requests s) h of
        None \<Rightarrow> s
      | Some req \<Rightarrow>
          if answers req r
          then resume e req r (s\<lparr>requests := filter (\<lambda>q. fst q \<noteq> h) (requests s)\<rparr>)
          else s)"
| "step U e (TimerFires h) s =
     (case map_of (timers s) h of
        None \<Rightarrow> s
      | Some (d, cb) \<Rightarrow> runCallback e cb (s\<lparr>timers := filter (\<lambda>t. fst t \<noteq> h) (timers s)\<rparr>))"


fun run :: "(string \<Rightarrow> string option) \<Rightarrow> (env \<times> event) list \<Rightarrow> app_state \<Rightarrow> app_state" where
  "run U [] s = s"
| "run U (x # tr) s = run U tr (step U (fst x) (snd x) s)"


subsection \<open>Vocabulary of the properties\<close>

text \<open>
  The pending timers that are job polls, and the invariant that ties them to the ref: timer
  handles are positive, pairwise different and not beyond the counter, and a pending poll
  timer is the one \<open>pollTimer\<close> holds.
\<close>

fun isPoll :: "timer \<Rightarrow> bool" where
  "isPoll (h, d, PollJob j l) = True"
| "isPoll (h, d, MarkUploaded i) = False"

definition pollTimers :: "app_state \<Rightarrow> timer list" where
  "pollTimers s = filter isPoll (timers s)"

definition timers_ok :: "app_state \<Rightarrow> bool" where
  "timers_ok s =
     (distinct (map fst (timers s)) \<and>
      (\<forall>t\<in>set (timers s). fst t \<noteq> 0 \<and> fst t \<le> timerSeq s \<and>
          (isPoll t \<longrightarrow> pollTimer s = Some (fst t))))"

text \<open>
  A cache snapshot as the claims want it: every element is an entry with a non-empty slug.
  \<open>cookie_ok c0 s\<close>: the cookie of \<open>s\<close> is still \<open>c0\<close>, or it is such a snapshot.
\<close>

definition slugged :: "manifest_file option \<Rightarrow> bool" where
  "slugged m = (case m of None \<Rightarrow> False | Some f \<Rightarrow> truthy (mf_slug f))"

definition snapshot_ok :: "manifest_payload option \<Rightarrow> bool" where
  "snapshot_ok c = (case c of None \<Rightarrow> False | Some p \<Rightarrow> list_all slugged (files_p p))"

definition cookie_ok :: "manifest_payload option \<Rightarrow> app_state \<Rightarrow> bool" where
  "cookie_ok c0 s = (cookie s = c0 \<or> snapshot_ok (cookie s))"

text \<open>
  For cancellation: \<open>grows s s'\<close> says that from \<open>s\<close> to \<open>s'\<close> request handles are only
  added beyond the counter, no aborted token comes back to life and handles stay pairwise
  different; \<open>inert h s\<close> says that whatever is in flight under handle \<open>h\<close> is a hydrate
  whose token is aborted. A live hydrate is one in flight whose token is not aborted (a
  hydrate without a token is always live); \<open>hydrate_inv\<close> says that at most one is live,
  that loading is shown while one is, and that none is before the mount. \<open>quiet s s'\<close>:
  the step from \<open>s\<close> to \<open>s'\<close> leaves the live hydrates, the loading flag and the phase
  alone.
\<close>

definition grows :: "app_state \<Rightarrow> app_state \<Rightarrow> bool" where
  "grows s s' =
     (requestSeq s \<le> requestSeq s' \<and>
      (\<forall>q\<in>set (requests s'). q \<in> set (requests s) \<or>
          (requestSeq s \<le> fst q \<and> fst q < requestSeq s')) \<and>
      (\<forall>sg. isAborted sg s \<longrightarrow> isAborted sg s') \<and>
      (distinct (map fst (requests s)) \<and> (\<forall>q\<in>set (requests s). fst q < requestSeq s)
         \<longrightarrow> distinct (map fst (requests s'))))"


definition liveHydrate :: "app_state \<Rightarrow> nat \<times> request \<Rightarrow> bool" where
  "liveHydrate s q = (case snd q of HydrateReq sg \<Rightarrow> \<not> isAborted sg s | _ \<Rightarrow> False)"

definition liveHydrates :: "app_state \<Rightarrow> (nat \<times> request) list" where
  "liveHydrates s = filter (liveHydrate s) (requests s)"

definition hydrate_inv :: "app_state \<Rightarrow> bool" where
  "hydrate_inv s =
     ((liveHydrates s \<noteq> [] \<longrightarrow> manifestLoading s) \<and> length (liveHydrates s) \<le> 1 \<and>
      (phase s = Fresh \<longrightarrow> liveHydrates s = []))"

definition quiet :: "app_state \<Rightarrow> app_state \<Rightarrow> bool" where
  "quiet s s' =
     (liveHydrates s' = liveHydrates s \<and> manifestLoading s' = manifestLoading s \<and>
      phase s' = phase s)"

subsection \<open>Example inputs\<close>

text \<open>
  A stand-in for the browser's URL parser on the links of the examples, a stored file as the
  server lists it, and the states and event sequences the examples start from.
\<close>

definition exampleUrl :: "string \<Rightarrow> string option" where
  "exampleUrl url =
     (if url = ''https://x/form.pdf'' then Some ''https:''
      else if url = ''ftp://x'' then Some ''ftp:''
      else None)"

definition exampleFile :: manifest_file where
  "exampleFile =
     \<lparr> mf_status = None, mf_slug = Some ''abc'', mf_fileName = Some ''a.pdf'',
       mf_s3Url = None, mf_size = Some 100 \<rparr>"

definition exampleState :: app_state where
  "exampleState =
     (init ''u1'' True None)\<lparr>formUrl := ''https://x/form.pdf'', files := mapEntries 0 [Some exampleFile],
                             phase := Live, manifestLoading := False, uuidSeq := 1\<rparr>"

definition exampleEnv :: env where
  "exampleEnv = \<lparr> dateNow = 1000, mathRandom = 1 / 2 \<rparr>"

definition examplePayload :: manifest_payload where
  "examplePayload = \<lparr> updatedAt = Some 900, files_p = [Some exampleFile] \<rparr>"

definition exampleTrace :: "(env \<times> event) list" where
  "exampleTrace =
     [(exampleEnv, Mount False), (exampleEnv, SetFormUrl ''https://x/form.pdf''),
      (exampleEnv, StartFill), (exampleEnv, Respond 0 (FillOk ''J1'' ''queued'' None))]"

definition pollingTrace :: "(env \<times> event) list" where
  "pollingTrace = exampleTrace @ [(exampleEnv, TimerFires 1)]"

definition uploadingState :: app_state where
  "uploadingState = exampleState\<lparr>files := newEntries 1 [(''b.pdf'', 10)], uuidSeq := 2\<rparr>"





section \<open>Rounding to a double\<close>

lemma roundEven_ge: "of_int k \<le> z \<Longrightarrow> k \<le> roundEven z"
proof -
  assume "of_int k \<le> z"
  then have "k \<le> \<lfloor>z\<rfloor>" by (simp add: le_floor_iff)
  then show ?thesis by (simp add: roundEven_def Let_def)
qed

lemma roundEven_le: "z \<le> of_int k \<Longrightarrow> roundEven z \<le> k"
proof (cases "z = of_int \<lfloor>z\<rfloor>")
  case True
  assume "z \<le> of_int k"
  then have "\<lfloor>z\<rfloor> \<le> k" by (simp add: floor_le_iff)
  moreover have "roundEven z = \<lfloor>z\<rfloor>"
    using True by (simp add: roundEven_def Let_def)
  ultimately show ?thesis by simp
next
  case False
  assume le: "z \<le> of_int k"
  have "of_int \<lfloor>z\<rfloor> < z"
    using False of_int_floor_le [of z] by linarith
  then have "of_int \<lfloor>z\<rfloor> < (of_int k :: real)"
    using le by linarith
  then have "\<lfloor>z\<rfloor> + 1 \<le> k" by simp
  moreover have "roundEven z \<le> \<lfloor>z\<rfloor> + 1"
    by (simp add: roundEven_def Let_def)
  ultimately show ?thesis by linarith
qed

lemma ulp_divides_int:
  assumes "e \<le> 52"
  shows "\<exists>k. (of_int m :: real) = (2::real) powr of_int (e - 52) * of_int k"
proof -
  define n where "n = nat (52 - e)"
  have "real_of_int (e - 52) = - real n"
    using assms by (simp add: n_def)
  then have u: "(2::real) powr of_int (e - 52) = 1 / 2 ^ n"
    by (simp only: powr_minus) (simp add: powr_realpow divide_inverse)
  have "(of_int m :: real) = (1 / 2 ^ n) * of_int (m * 2 ^ n)"
    by simp
  then show ?thesis
    unfolding u by blast
qed

lemma exponent_le:
  assumes "x \<noteq> 0" and "\<bar>x\<bar> < 2 ^ 53"
  shows "max \<lfloor>log 2 \<bar>x\<bar>\<rfloor> (- 1022) \<le> 52"
proof -
  have "log 2 \<bar>x\<bar> < 53"
    using assms by (simp add: log_less_iff powr_realpow [symmetric] del: powr_realpow)
  then have "\<lfloor>log 2 \<bar>x\<bar>\<rfloor> < 53"
    by (simp add: floor_less_iff)
  then show ?thesis by simp
qed

lemma roundDouble_int_bounds:
  assumes lo: "of_int m \<le> x" and hi: "x \<le> of_int n" and small: "\<bar>x\<bar> < 2 ^ 53"
  shows "of_int m \<le> roundDouble x \<and> roundDouble x \<le> of_int n"
proof (cases "x = 0")
  case True
  then show ?thesis using lo hi by (simp add: roundDouble_def)
next
  case False
  define e where "e = max \<lfloor>log 2 \<bar>x\<bar>\<rfloor> (- 1022)"
  define u :: real where "u = 2 powr of_int (e - 52)"
  have e52: "e \<le> 52"
    unfolding e_def using False small by (rule exponent_le)
  have upos: "0 < u" by (simp add: u_def)
  have rd: "roundDouble x = u * of_int (roundEven (x / u))"
    using False by (simp add: roundDouble_def Let_def e_def u_def)
  obtain km where km: "of_int m = u * of_int km"
    using ulp_divides_int [OF e52, of m] unfolding u_def by blast
  obtain kn where kn: "of_int n = u * of_int kn"
    using ulp_divides_int [OF e52, of n] unfolding u_def by blast
  have "of_int km \<le> x / u"
    using lo upos by (simp add: km pos_le_divide_eq mult.commute)
  then have "km \<le> roundEven (x / u)" by (rule roundEven_ge)
  then have a: "of_int m \<le> roundDouble x"
    using upos by (simp add: km rd)
  have "x / u \<le> of_int kn"
    using hi upos by (simp add: kn pos_divide_le_eq mult.commute)
  then have "roundEven (x / u) \<le> kn" by (rule roundEven_le)
  then have b: "roundDouble x \<le> of_int n"
    using upos by (simp add: kn rd)
  from a b show ?thesis ..
qed

lemma jitter_window:
  assumes "0 \<le> r" and "r < 1"
  shows "1200 \<le> roundDouble (1200 + roundDouble (r * 1200)) \<and>
         roundDouble (1200 + roundDouble (r * 1200)) \<le> 2400"
proof -
  have p: "of_int 0 \<le> r * 1200" "r * 1200 \<le> of_int 1200" "\<bar>r * 1200\<bar> < 2 ^ 53"
    using assms by simp_all
  from roundDouble_int_bounds [OF p]
  have q: "0 \<le> roundDouble (r * 1200)" "roundDouble (r * 1200) \<le> 1200"
    by simp_all
  have s: "of_int 1200 \<le> 1200 + roundDouble (r * 1200)"
          "1200 + roundDouble (r * 1200) \<le> of_int 2400"
          "\<bar>1200 + roundDouble (r * 1200)\<bar> < 2 ^ 53"
    using q by simp_all
  from roundDouble_int_bounds [OF s] show ?thesis by simp
qed


lemma floor_log2:
  assumes "2 ^ n \<le> x" and "x < 2 ^ Suc n"
  shows "\<lfloor>log 2 x\<rfloor> = int n"
proof -
  have pos: "0 < x"
    using assms(1) by (rule less_le_trans [rotated]) simp
  have "real n \<le> log 2 x"
    using assms(1) pos by (simp add: le_log_iff powr_realpow)
  moreover have "log 2 x < real (Suc n)"
    using assms(2) pos by (simp only: log_less_iff powr_realpow)
  ultimately show ?thesis
    by (simp add: floor_eq_iff)
qed

lemma roundDouble_at:
  assumes "2 ^ n \<le> x" and "x < 2 ^ Suc n" and "n \<le> 52"
  shows "roundDouble x = of_int (roundEven (x * 2 ^ (52 - n))) / 2 ^ (52 - n)"
proof -
  have pos: "0 < x"
    using assms(1) by (rule less_le_trans [rotated]) simp
  have e: "max \<lfloor>log 2 \<bar>x\<bar>\<rfloor> (- 1022) = int n"
    using floor_log2 [OF assms(1,2)] pos by simp
  have "real_of_int (int n - 52) = - real (52 - n)"
    using assms(3) by simp
  moreover have "(2::real) powr (- real (52 - n)) = 1 / 2 ^ (52 - n)"
    by (simp add: powr_minus powr_realpow divide_inverse)
  ultimately have u: "(2::real) powr of_int (int n - 52) = 1 / 2 ^ (52 - n)"
    by (simp only:)
  have nz: "x \<noteq> 0"
    using pos by simp
  have "roundDouble x =
      (2::real) powr of_int (int n - 52) * of_int (roundEven (x / 2 powr of_int (int n - 52)))"
    by (simp only: roundDouble_def nz if_False Let_def e)
  also have "\<dots> = 1 / 2 ^ (52 - n) * of_int (roundEven (x / (1 / 2 ^ (52 - n))))"
    by (simp only: u)
  also have "\<dots> = of_int (roundEven (x * 2 ^ (52 - n))) / 2 ^ (52 - n)"
    by simp
  finally show ?thesis .
qed

lemma roundDouble_exact:
  "roundDouble 600 = 600" "roundDouble 1800 = 1800"
  using roundDouble_at [of 9 600] roundDouble_at [of 10 1800]
  by (simp_all add: roundEven_def)

text \<open>The largest value of \<open>Math.random()\<close> gives a delay of exactly 2400.\<close>

lemma jitter_reaches_2400: "roundDouble (1200 + roundDouble ((1 - 1 / 2 ^ 53) * 1200)) = 2400"
proof -
  have a: "roundDouble ((1 - 1 / 2 ^ 53) * 1200) = 1200 - 1 / 2 ^ 42"
    using roundDouble_at [of 10 "(1 - 1 / 2 ^ 53) * 1200"] by (simp add: roundEven_def)
  have b: "roundDouble (1200 + (1200 - 1 / 2 ^ 42)) = 2400"
    using roundDouble_at [of 11 "1200 + (1200 - 1 / 2 ^ 42)"] by (simp add: roundEven_def)
  show ?thesis by (simp only: a b)
qed

section \<open>What each operation leaves unchanged\<close>

lemma updateFiles_frame [simp]:
  "timers (updateFiles f c now s) = timers s"
  "timerSeq (updateFiles f c now s) = timerSeq s"
  "pollTimer (updateFiles f c now s) = pollTimer s"
  "requests (updateFiles f c now s) = requests s"
  "requestSeq (updateFiles f c now s) = requestSeq s"
  "signals (updateFiles f c now s) = signals s"
  "manifestLoading (updateFiles f c now s) = manifestLoading s"
  "manifestError (updateFiles f c now s) = manifestError s"
  "phase (updateFiles f c now s) = phase s"
  "effectSignal (updateFiles f c now s) = effectSignal s"
  "uuidSeq (updateFiles f c now s) = uuidSeq s"
  "userId (updateFiles f c now s) = userId s"
  "hasDocument (updateFiles f c now s) = hasDocument s"
  "formUrl (updateFiles f c now s) = formUrl s"
  "jobStatus (updateFiles f c now s) = jobStatus s"
  "jobId (updateFiles f c now s) = jobId s"
  "jobError (updateFiles f c now s) = jobError s"
  "filledFormUrl (updateFiles f c now s) = filledFormUrl s"
  "files (updateFiles f c now s) = f (files s)"
  by (simp_all add: updateFiles_def Let_def persistFilesToCache_def writeManifestCache_def)

lemma clearExistingPoll_frame [simp]:
  "requests (clearExistingPoll s) = requests s"
  "requestSeq (clearExistingPoll s) = requestSeq s"
  "jobStatus (clearExistingPoll s) = jobStatus s"
  "jobId (clearExistingPoll s) = jobId s"
  "jobError (clearExistingPoll s) = jobError s"
  "filledFormUrl (clearExistingPoll s) = filledFormUrl s"
  "files (clearExistingPoll s) = files s"
  "cookie (clearExistingPoll s) = cookie s"
  "signals (clearExistingPoll s) = signals s"
  "manifestLoading (clearExistingPoll s) = manifestLoading s"
  "phase (clearExistingPoll s) = phase s"
  "timerSeq (clearExistingPoll s) = timerSeq s"
  by (simp_all add: clearExistingPoll_def clearTimeout_js_def split: option.splits)

lemma scheduleJobPoll_frame [simp]:
  "requests (scheduleJobPoll j l s) = requests s"
  "requestSeq (scheduleJobPoll j l s) = requestSeq s"
  "jobStatus (scheduleJobPoll j l s) = jobStatus s"
  "jobId (scheduleJobPoll j l s) = jobId s"
  "jobError (scheduleJobPoll j l s) = jobError s"
  "filledFormUrl (scheduleJobPoll j l s) = filledFormUrl s"
  "files (scheduleJobPoll j l s) = files s"
  "cookie (scheduleJobPoll j l s) = cookie s"
  "signals (scheduleJobPoll j l s) = signals s"
  "manifestLoading (scheduleJobPoll j l s) = manifestLoading s"
  "phase (scheduleJobPoll j l s) = phase s"
  "pollTimer (scheduleJobPoll j l s) = Some (Suc (timerSeq s))"
  by (simp_all add: scheduleJobPoll_def Let_def setTimeout_js_def)

lemma setTimeout_frame [simp]:
  "files (snd (setTimeout_js cb d s)) = files s"
  "cookie (snd (setTimeout_js cb d s)) = cookie s"
  "requests (snd (setTimeout_js cb d s)) = requests s"
  "requestSeq (snd (setTimeout_js cb d s)) = requestSeq s"
  "signals (snd (setTimeout_js cb d s)) = signals s"
  "manifestLoading (snd (setTimeout_js cb d s)) = manifestLoading s"
  "phase (snd (setTimeout_js cb d s)) = phase s"
  "timers (snd (setTimeout_js cb d s)) = timers s @ [(Suc (timerSeq s), d, cb)]"
  by (simp_all add: setTimeout_js_def)

lemma apiFetch_frame [simp]:
  "files (apiFetch req s) = files s"
  "cookie (apiFetch req s) = cookie s"
  "timers (apiFetch req s) = timers s"
  "timerSeq (apiFetch req s) = timerSeq s"
  "pollTimer (apiFetch req s) = pollTimer s"
  "signals (apiFetch req s) = signals s"
  "manifestLoading (apiFetch req s) = manifestLoading s"
  "manifestError (apiFetch req s) = manifestError s"
  "phase (apiFetch req s) = phase s"
  "effectSignal (apiFetch req s) = effectSignal s"
  "jobStatus (apiFetch req s) = jobStatus s"
  "requests (apiFetch req s) = requests s @ [(requestSeq s, req)]"
  "requestSeq (apiFetch req s) = Suc (requestSeq s)"
  by (simp_all add: apiFetch_def)

lemma isAborted_cong: "signals s' = signals s \<Longrightarrow> isAborted sg s' = isAborted sg s"
  by (cases sg) (simp_all add: isAborted_def)

lemma isAborted_field_updates [simp]:
  "isAborted sg (s\<lparr>manifestLoading := a\<rparr>) = isAborted sg s"
  "isAborted sg (s\<lparr>manifestError := b\<rparr>) = isAborted sg s"
  "isAborted sg (s\<lparr>uuidSeq := n\<rparr>) = isAborted sg s"
  "isAborted sg (s\<lparr>requests := rq\<rparr>) = isAborted sg s"
  "isAborted sg (s\<lparr>effectSignal := es\<rparr>) = isAborted sg s"
  "isAborted sg (s\<lparr>phase := ph\<rparr>) = isAborted sg s"
  "isAborted sg (s\<lparr>timers := ts\<rparr>) = isAborted sg s"
  "isAborted sg (s\<lparr>formUrl := u\<rparr>) = isAborted sg s"
  by (rule isAborted_cong, simp)+

lemma isAborted_primitives [simp]:
  "isAborted sg (updateFiles f c now s) = isAborted sg s"
  "isAborted sg (apiFetch req s) = isAborted sg s"
  by (rule isAborted_cong, simp)+

section \<open>The poll timer invariant\<close>

lemma timers_ok_cong:
  "timers s' = timers s \<Longrightarrow> timerSeq s' = timerSeq s \<Longrightarrow> pollTimer s' = pollTimer s
   \<Longrightarrow> timers_ok s' = timers_ok s"
  by (simp add: timers_ok_def)

lemma timers_ok_init: "timers_ok (init uid doc c)"
  by (simp add: timers_ok_def init_def)

lemma timers_ok_updateFiles [simp]: "timers_ok (updateFiles f c now s) = timers_ok s"
  by (rule timers_ok_cong) simp_all

lemma timers_ok_apiFetch [simp]: "timers_ok (apiFetch r s) = timers_ok s"
  by (rule timers_ok_cong) (simp_all add: apiFetch_def)

lemma pollTimers_updateFiles [simp]: "pollTimers (updateFiles f c now s) = pollTimers s"
  by (simp add: pollTimers_def)

lemma pollTimers_apiFetch [simp]: "pollTimers (apiFetch r s) = pollTimers s"
  by (simp add: pollTimers_def apiFetch_def)

lemma timers_ok_remove: "timers_ok s \<Longrightarrow> timers_ok (s\<lparr>timers := filter P (timers s)\<rparr>)"
  by (auto simp: timers_ok_def distinct_map_filter)

lemma timers_ok_clearExistingPoll:
  "timers_ok s \<Longrightarrow> timers_ok (clearExistingPoll s)"
  by (auto simp: timers_ok_def clearExistingPoll_def clearTimeout_js_def distinct_map_filter
           split: option.splits)

lemma pollTimers_clearExistingPoll:
  "timers_ok s \<Longrightarrow> pollTimers (clearExistingPoll s) = []"
  by (auto simp: timers_ok_def pollTimers_def clearExistingPoll_def clearTimeout_js_def
                 filter_empty_conv split: option.splits)

lemma timers_ok_scheduleJobPoll:
  assumes "timers_ok s"
  shows "timers_ok (scheduleJobPoll j l s)"
proof -
  have ok: "timers_ok (clearExistingPoll s)" and none: "pollTimers (clearExistingPoll s) = []"
    using assms by (simp_all add: timers_ok_clearExistingPoll pollTimers_clearExistingPoll)
  from none have np: "\<forall>t\<in>set (timers (clearExistingPoll s)). \<not> isPoll t"
    by (simp add: pollTimers_def filter_empty_conv)
  show ?thesis
    using ok np
    by (auto simp: scheduleJobPoll_def Let_def setTimeout_js_def timers_ok_def)
qed

lemma pollTimers_scheduleJobPoll:
  assumes "timers_ok s"
  shows "pollTimers (scheduleJobPoll j l s) = [(Suc (timerSeq s), JOB_POLL_INTERVAL_MS, PollJob j l)]"
proof -
  have "pollTimers (clearExistingPoll s) = []"
    using assms by (rule pollTimers_clearExistingPoll)
  then show ?thesis
    by (simp add: scheduleJobPoll_def Let_def setTimeout_js_def pollTimers_def)
qed

lemma timers_ok_setTimeout_upload:
  "timers_ok s \<Longrightarrow> timers_ok (snd (setTimeout_js (MarkUploaded i) d s))"
  by (auto simp: setTimeout_js_def timers_ok_def)

lemma timers_ok_at_most_one:
  assumes "timers_ok s"
  shows "length (pollTimers s) \<le> 1"
proof -
  have d: "distinct (map fst (pollTimers s))"
    using assms by (simp add: timers_ok_def pollTimers_def distinct_map_filter)
  have "\<forall>t\<in>set (pollTimers s). pollTimer s = Some (fst t)"
    using assms by (auto simp: timers_ok_def pollTimers_def)
  then have "set (map fst (pollTimers s)) \<subseteq> set_option (pollTimer s)"
    by auto
  then have "card (set (map fst (pollTimers s))) \<le> card (set_option (pollTimer s))"
    by (intro card_mono) (auto simp: )
  moreover have "card (set_option (pollTimer s)) \<le> 1"
    by (cases "pollTimer s") simp_all
  ultimately have "card (set (map fst (pollTimers s))) \<le> 1"
    by linarith
  moreover have "card (set (map fst (pollTimers s))) = length (map fst (pollTimers s))"
    using d by (rule distinct_card)
  ultimately show ?thesis by simp
qed

lemma timers_ok_field_updates [simp]:
  "timers_ok (s\<lparr>manifestLoading := a\<rparr>) = timers_ok s"
  "timers_ok (s\<lparr>manifestError := b\<rparr>) = timers_ok s"
  "timers_ok (s\<lparr>uuidSeq := n\<rparr>) = timers_ok s"
  "timers_ok (s\<lparr>jobStatus := x\<rparr>) = timers_ok s"
  "timers_ok (s\<lparr>jobId := x\<rparr>) = timers_ok s"
  "timers_ok (s\<lparr>jobError := x\<rparr>) = timers_ok s"
  "timers_ok (s\<lparr>filledFormUrl := x\<rparr>) = timers_ok s"
  "timers_ok (s\<lparr>formUrl := x\<rparr>) = timers_ok s"
  "timers_ok (s\<lparr>phase := ph\<rparr>) = timers_ok s"
  "timers_ok (s\<lparr>effectSignal := sg\<rparr>) = timers_ok s"
  "timers_ok (s\<lparr>signals := sgs\<rparr>) = timers_ok s"
  "timers_ok (s\<lparr>requests := rq\<rparr>) = timers_ok s"
  by (simp_all add: timers_ok_def)

lemma timers_ok_fetchManifest [simp]: "timers_ok (fetchManifest signal s) = timers_ok s"
  by (simp add: fetchManifest_def)

lemma timers_ok_hydrateUploads [simp]: "timers_ok (hydrateUploads now ic signal s) = timers_ok s"
  by (simp add: hydrateUploads_def applyManifestEntries_def Let_def split: option.splits prod.splits)

lemma timers_ok_hydrateUploads_resume [simp]:
  "timers_ok (hydrateUploads_resume now signal r s) = timers_ok s"
  by (simp add: hydrateUploads_resume_def applyManifestEntries_def Let_def split: response.splits)

lemma timers_ok_mountEffects [simp]: "timers_ok (mountEffects now s) = timers_ok s"
  by (simp add: mountEffects_def newAbortController_def)

lemma timers_ok_cleanupEffects: "timers_ok s \<Longrightarrow> timers_ok (cleanupEffects s)"
  by (auto simp: cleanupEffects_def Let_def abort_def clearTimeout_js_def timers_ok_remove
           split: option.splits)

lemma timers_ok_uploadDocument [simp]: "timers_ok (uploadDocument now i k s) = timers_ok s"
  by (simp add: uploadDocument_def updateFile_def)

lemma timers_ok_uploads [simp]:
  "timers_ok (fold (\<lambda>(entry, file). uploadDocument now (id_f entry) (snd file)) xs s) = timers_ok s"
  by (induction xs arbitrary: s) (simp_all add: case_prod_unfold)

lemma timers_ok_handleFilesSelected [simp]:
  "timers_ok (handleFilesSelected now sel s) = timers_ok s"
  by (simp add: handleFilesSelected_def Let_def)

lemma timers_ok_uploadDocument_resume:
  "timers_ok s \<Longrightarrow> timers_ok (uploadDocument_resume e i k r s)"
  by (simp add: uploadDocument_resume_def updateFile_def Let_def timers_ok_setTimeout_upload
           split: response.splits)

lemma timers_ok_handleDelete [simp]: "timers_ok (handleDelete now file s) = timers_ok s"
  by (simp add: handleDelete_def removeFile_def updateFile_def)

lemma timers_ok_handleDelete_resume [simp]:
  "timers_ok (handleDelete_resume now i r s) = timers_ok s"
  by (simp add: handleDelete_resume_def removeFile_def updateFile_def split: response.splits)

lemma timers_ok_handleStartFill: "timers_ok s \<Longrightarrow> timers_ok (handleStartFill U s)"
  by (simp add: handleStartFill_def timers_ok_clearExistingPoll)

lemma timers_ok_handleStartFill_resume:
  "timers_ok s \<Longrightarrow> timers_ok (handleStartFill_resume snap r s)"
  by (simp add: handleStartFill_resume_def Let_def timers_ok_scheduleJobPoll split: response.splits)

lemma timers_ok_scheduleJobPoll_resume:
  "timers_ok s \<Longrightarrow> timers_ok (scheduleJobPoll_resume j l r s)"
  by (simp add: scheduleJobPoll_resume_def Let_def timers_ok_scheduleJobPoll
                timers_ok_clearExistingPoll split: response.splits)

lemma timers_ok_resume: "timers_ok s \<Longrightarrow> timers_ok (resume e req r s)"
  by (cases req)
     (simp_all add: timers_ok_uploadDocument_resume timers_ok_handleStartFill_resume
                    timers_ok_scheduleJobPoll_resume)

lemma timers_ok_runCallback [simp]: "timers_ok (runCallback e cb s) = timers_ok s"
  by (cases cb) (simp_all add: updateFile_def)

lemma timers_ok_step: "timers_ok s \<Longrightarrow> timers_ok (step U e ev s)"
  by (cases ev)
     (simp_all add: Let_def timers_ok_cleanupEffects handleRefreshUploads_def
                    timers_ok_handleStartFill timers_ok_resume timers_ok_remove
               split: option.splits prod.splits)

lemma timers_ok_run: "timers_ok s \<Longrightarrow> timers_ok (run U tr s)"
  by (induction tr arbitrary: s) (simp_all add: timers_ok_step)

lemma timers_ok_reachable: "timers_ok (run U tr (init uid doc c))"
  by (simp add: timers_ok_run timers_ok_init)

lemma pollTimers_field_updates [simp]:
  "pollTimers (s\<lparr>jobStatus := x\<rparr>) = pollTimers s"
  "pollTimers (s\<lparr>jobId := x\<rparr>) = pollTimers s"
  "pollTimers (s\<lparr>jobError := x\<rparr>) = pollTimers s"
  "pollTimers (s\<lparr>filledFormUrl := x\<rparr>) = pollTimers s"
  "pollTimers (s\<lparr>requests := rq\<rparr>) = pollTimers s"
  by (simp_all add: pollTimers_def)

lemma pollTimer_cleared [simp]: "pollTimer (clearExistingPoll s) = (if pollTimer s = Some 0 then Some 0 else None)"
  by (simp add: clearExistingPoll_def clearTimeout_js_def split: option.splits)

section \<open>What the cache-write path writes\<close>

lemma manifestPayload_slugged: "list_all slugged (files_p (manifestPayload now fs))"
  by (simp add: manifestPayload_def list_all_iff slugged_def truthy_def summary_def)

lemma persistFilesToCache_cookie:
  "cookie (persistFilesToCache now fs s) = cookie s \<or>
   cookie (persistFilesToCache now fs s) = Some (manifestPayload now fs)"
  by (simp add: persistFilesToCache_def writeManifestCache_def)

lemma cookie_ok_cong: "cookie s' = cookie s \<Longrightarrow> cookie_ok c0 s' = cookie_ok c0 s"
  by (simp add: cookie_ok_def)

lemma cookie_ok_updateFiles: "cookie_ok c0 s \<Longrightarrow> cookie_ok c0 (updateFiles f c now s)"
  using persistFilesToCache_cookie [of now "f (files s)" s]
  by (auto simp: cookie_ok_def updateFiles_def Let_def snapshot_ok_def manifestPayload_slugged)

lemma cookie_ok_field_updates [simp]:
  "cookie_ok c0 (s\<lparr>manifestLoading := a\<rparr>) = cookie_ok c0 s"
  "cookie_ok c0 (s\<lparr>manifestError := b\<rparr>) = cookie_ok c0 s"
  "cookie_ok c0 (s\<lparr>uuidSeq := n\<rparr>) = cookie_ok c0 s"
  "cookie_ok c0 (s\<lparr>jobStatus := x\<rparr>) = cookie_ok c0 s"
  "cookie_ok c0 (s\<lparr>jobId := x\<rparr>) = cookie_ok c0 s"
  "cookie_ok c0 (s\<lparr>jobError := x\<rparr>) = cookie_ok c0 s"
  "cookie_ok c0 (s\<lparr>filledFormUrl := x\<rparr>) = cookie_ok c0 s"
  "cookie_ok c0 (s\<lparr>formUrl := x\<rparr>) = cookie_ok c0 s"
  "cookie_ok c0 (s\<lparr>phase := ph\<rparr>) = cookie_ok c0 s"
  "cookie_ok c0 (s\<lparr>effectSignal := sg\<rparr>) = cookie_ok c0 s"
  "cookie_ok c0 (s\<lparr>signals := sgs\<rparr>) = cookie_ok c0 s"
  "cookie_ok c0 (s\<lparr>requests := rq\<rparr>) = cookie_ok c0 s"
  "cookie_ok c0 (s\<lparr>timers := ts\<rparr>) = cookie_ok c0 s"
  "cookie_ok c0 (s\<lparr>timerSeq := k\<rparr>) = cookie_ok c0 s"
  "cookie_ok c0 (s\<lparr>pollTimer := pt\<rparr>) = cookie_ok c0 s"
  by (simp_all add: cookie_ok_def)

lemma cookie_ok_primitives [simp]:
  "cookie_ok c0 (apiFetch r s) = cookie_ok c0 s"
  "cookie_ok c0 (clearTimeout_js h s) = cookie_ok c0 s"
  "cookie_ok c0 (snd (setTimeout_js cb d s)) = cookie_ok c0 s"
  "cookie_ok c0 (abort k s) = cookie_ok c0 s"
  "cookie_ok c0 (clearExistingPoll s) = cookie_ok c0 s"
  "cookie_ok c0 (scheduleJobPoll j l s) = cookie_ok c0 s"
  by (simp_all add: apiFetch_def clearTimeout_js_def setTimeout_js_def abort_def cookie_ok_def)

lemma cookie_ok_fetchManifest [simp]: "cookie_ok c0 (fetchManifest signal s) = cookie_ok c0 s"
  by (simp add: fetchManifest_def)

lemma cookie_ok_hydrateUploads: "cookie_ok c0 s \<Longrightarrow> cookie_ok c0 (hydrateUploads now ic signal s)"
  by (simp add: hydrateUploads_def applyManifestEntries_def Let_def cookie_ok_updateFiles
           split: option.splits prod.splits)

lemma cookie_ok_hydrateUploads_resume:
  "cookie_ok c0 s \<Longrightarrow> cookie_ok c0 (hydrateUploads_resume now signal r s)"
  by (simp add: hydrateUploads_resume_def applyManifestEntries_def Let_def cookie_ok_updateFiles
           split: response.splits)

lemma cookie_ok_mountEffects: "cookie_ok c0 s \<Longrightarrow> cookie_ok c0 (mountEffects now s)"
  by (simp add: mountEffects_def newAbortController_def cookie_ok_hydrateUploads)

lemma cookie_ok_cleanupEffects [simp]: "cookie_ok c0 (cleanupEffects s) = cookie_ok c0 s"
  by (simp add: cleanupEffects_def Let_def split: option.splits)

lemma cookie_ok_uploadDocument: "cookie_ok c0 s \<Longrightarrow> cookie_ok c0 (uploadDocument now i k s)"
  by (simp add: uploadDocument_def updateFile_def cookie_ok_updateFiles)

lemma cookie_ok_uploads:
  "cookie_ok c0 s \<Longrightarrow>
   cookie_ok c0 (fold (\<lambda>(entry, file). uploadDocument now (id_f entry) (snd file)) xs s)"
  by (induction xs arbitrary: s) (simp_all add: case_prod_unfold cookie_ok_uploadDocument)

lemma cookie_ok_handleFilesSelected:
  "cookie_ok c0 s \<Longrightarrow> cookie_ok c0 (handleFilesSelected now sel s)"
  by (simp add: handleFilesSelected_def Let_def cookie_ok_uploads cookie_ok_updateFiles)

lemma cookie_ok_uploadDocument_resume:
  "cookie_ok c0 s \<Longrightarrow> cookie_ok c0 (uploadDocument_resume e i k r s)"
  by (simp add: uploadDocument_resume_def updateFile_def Let_def cookie_ok_updateFiles
           split: response.splits)

lemma cookie_ok_handleDelete: "cookie_ok c0 s \<Longrightarrow> cookie_ok c0 (handleDelete now file s)"
  by (simp add: handleDelete_def removeFile_def updateFile_def cookie_ok_updateFiles)

lemma cookie_ok_handleDelete_resume:
  "cookie_ok c0 s \<Longrightarrow> cookie_ok c0 (handleDelete_resume now i r s)"
  by (simp add: handleDelete_resume_def removeFile_def updateFile_def cookie_ok_updateFiles
           split: response.splits)

lemma cookie_ok_job [simp]:
  "cookie_ok c0 (handleStartFill U s) = cookie_ok c0 s"
  "cookie_ok c0 (handleStartFill_resume snap r s) = cookie_ok c0 s"
  "cookie_ok c0 (scheduleJobPoll_resume j l r s) = cookie_ok c0 s"
  by (simp_all add: handleStartFill_def handleStartFill_resume_def scheduleJobPoll_resume_def
                    Let_def split: response.splits)

lemma cookie_ok_resume: "cookie_ok c0 s \<Longrightarrow> cookie_ok c0 (resume e req r s)"
  by (cases req)
     (simp_all add: cookie_ok_hydrateUploads_resume cookie_ok_uploadDocument_resume
                    cookie_ok_handleDelete_resume)

lemma cookie_ok_runCallback: "cookie_ok c0 s \<Longrightarrow> cookie_ok c0 (runCallback e cb s)"
  by (cases cb) (simp_all add: updateFile_def cookie_ok_updateFiles)

lemma cookie_ok_step: "cookie_ok c0 s \<Longrightarrow> cookie_ok c0 (step U e ev s)"
  by (cases ev)
     (simp_all add: Let_def cookie_ok_mountEffects handleRefreshUploads_def
                    cookie_ok_hydrateUploads cookie_ok_handleFilesSelected cookie_ok_handleDelete
                    cookie_ok_resume cookie_ok_runCallback
               split: option.splits prod.splits)

lemma cookie_ok_run: "cookie_ok c0 s \<Longrightarrow> cookie_ok c0 (run U tr s)"
  by (induction tr arbitrary: s) (simp_all add: cookie_ok_step)

section \<open>Requests in flight and aborted tokens\<close>

lemma grows_refl [simp]: "grows s s"
  by (simp add: grows_def)


lemma grows_same:
  "requests s' = requests s \<Longrightarrow> requestSeq s' = requestSeq s \<Longrightarrow> signals s' = signals s
   \<Longrightarrow> grows s s'"
  using isAborted_cong [of s' s] by (simp add: grows_def)




lemma isAborted_newAbortController [simp]:
  "isAborted sg (s\<lparr>signals := signals s @ [False]\<rparr>) = isAborted sg s"
  by (cases sg) (auto simp: isAborted_def nth_append)


lemma grows_newAbortController: "grows s (s\<lparr>signals := signals s @ [False]\<rparr>)"
  by (simp add: grows_def)
















lemma grows_clearExistingPoll: "grows s (clearExistingPoll s)"
  by (rule grows_same) simp_all

lemma grows_scheduleJobPoll: "grows s (scheduleJobPoll j l s)"
  by (rule grows_same) simp_all











section \<open>Live hydrations\<close>



lemma liveHydrate_simps [simp]:
  "liveHydrate s (h, HydrateReq sg) = (\<not> isAborted sg s)"
  "liveHydrate s (h, UploadReq i k) = False"
  "liveHydrate s (h, DeleteReq i sl) = False"
  "liveHydrate s (h, StartReq snap) = False"
  "liveHydrate s (h, PollReq j l) = False"
  by (simp_all add: liveHydrate_def)



lemma hydrate_inv_cong:
  "liveHydrates s' = liveHydrates s \<Longrightarrow> manifestLoading s' = manifestLoading s \<Longrightarrow>
   phase s' = phase s \<Longrightarrow> hydrate_inv s' = hydrate_inv s"
  by (simp add: hydrate_inv_def)

lemma quiet_refl [simp]: "quiet s s"
  by (simp add: quiet_def)






















lemma fetchManifest_frame [simp]:
  "phase (fetchManifest sg s) = phase s"
  "signals (fetchManifest sg s) = signals s"
  "effectSignal (fetchManifest sg s) = effectSignal s"
  "manifestLoading (fetchManifest sg s) = (manifestLoading s \<or> \<not> isAborted sg s)"
  by (auto simp: fetchManifest_def)

lemma hydrateUploads_frame [simp]:
  "phase (hydrateUploads now ic sg s) = phase s"
  "signals (hydrateUploads now ic sg s) = signals s"
  "effectSignal (hydrateUploads now ic sg s) = effectSignal s"
  by (simp_all add: hydrateUploads_def applyManifestEntries_def Let_def
               split: option.splits prod.splits)



lemma cleanupEffects_frame [simp]:
  "requests (cleanupEffects s) = requests s"
  "manifestLoading (cleanupEffects s) = manifestLoading s"
  "phase (cleanupEffects s) = phase s"
  by (simp_all add: cleanupEffects_def Let_def abort_def clearTimeout_js_def split: option.splits)





lemma hydrate_inv_no_live: "liveHydrates s = [] \<Longrightarrow> phase s \<noteq> Fresh \<Longrightarrow> hydrate_inv s"
  by (simp add: hydrate_inv_def)



text \<open>
  A refresh creates no token and aborts none. That no live hydrate is in flight when it
  begins is owed to the control, which is disabled while loading is shown.
\<close>

lemma handleRefreshUploads_signals: "signals (handleRefreshUploads now s) = signals s"
  by (simp add: handleRefreshUploads_def)


lemma hydrateUploads_resume_frame [simp]:
  "requests (hydrateUploads_resume now sg r s) = requests s"
  "signals (hydrateUploads_resume now sg r s) = signals s"
  "phase (hydrateUploads_resume now sg r s) = phase s"
  by (simp_all add: hydrateUploads_resume_def applyManifestEntries_def Let_def
               split: response.splits)








section \<open>Evaluation of the example runs\<close>

lemmas model_defs =
  init_def exampleEnv_def examplePayload_def exampleTrace_def exampleFile_def exampleUrl_def
  mountEffects_def newAbortController_def hydrateUploads_def readManifestCache_def readCookie_def
  MANIFEST_CACHE_TTL_MS_def mapManifestEntriesToState_def keepEntry_def truthy_def toEntry_def
  nullish_def or_else_def isAborted_def applyManifestEntries_def updateFiles_def
  mergePersistedEntries_def fetchManifest_def apiFetch_def handleStartFill_def canStartFill_def
  isValidHttpUrl_def allUploadsComplete_def clearExistingPoll_def clearTimeout_js_def
  handleStartFill_resume_def scheduleJobPoll_def setTimeout_js_def Let_def

lemma exampleTrace_eval:
  "jobStatus (run exampleUrl exampleTrace (init ''u1'' True (Some examplePayload))) = ''queued''"
  "timers (run exampleUrl exampleTrace (init ''u1'' True (Some examplePayload))) = [(1, JOB_POLL_INTERVAL_MS, PollJob ''J1'' ''https://x/form.pdf'')]"
  "timerSeq (run exampleUrl exampleTrace (init ''u1'' True (Some examplePayload))) = 1"
  "requests (run exampleUrl exampleTrace (init ''u1'' True (Some examplePayload))) = []"
  by (simp_all add: model_defs)

lemma pollingTrace_eval:
  "map_of (requests (run exampleUrl pollingTrace (init ''u1'' True (Some examplePayload)))) 1
     = Some (PollReq ''J1'' ''https://x/form.pdf'')"
  "timerSeq (run exampleUrl pollingTrace (init ''u1'' True (Some examplePayload))) = 1"
  "timers (run exampleUrl pollingTrace (init ''u1'' True (Some examplePayload))) = []"
  by (simp_all add: pollingTrace_def model_defs)




section \<open>The Manifest Reconciler\<close>

text \<open>
  Claim C1. For all server-confirmed entries \<open>S\<close> and every visible list \<open>V\<close>, the merge
  is \<open>S\<close> followed by the entries of \<open>V\<close> whose \<open>persisted\<close> flag is false, each group in
  its own order; when \<open>V\<close> has no transient entry the merge is \<open>S\<close>.
\<close>

theorem mergePersistedEntries_spec:
  "mergePersistedEntries S V = S @ filter (\<lambda>e. \<not> persisted e) V \<and>
   (list_all persisted V \<longrightarrow> mergePersistedEntries S V = S)"
  by (simp add: mergePersistedEntries_def list_all_iff)

theorem mergePersistedEntries_spec_witness:
  "mergePersistedEntries (mapEntries 0 [Some exampleFile])
       (newEntries 5 [(''b.pdf'', 10)] @ mapEntries 7 [Some exampleFile])
     = mapEntries 0 [Some exampleFile] @ newEntries 5 [(''b.pdf'', 10)] \<and>
   mergePersistedEntries (mapEntries 0 [Some exampleFile]) (mapEntries 7 [Some exampleFile])
     = mapEntries 0 [Some exampleFile]"
  using mergePersistedEntries_spec
          [of "mapEntries 0 [Some exampleFile]"
              "newEntries 5 [(''b.pdf'', 10)] @ mapEntries 7 [Some exampleFile]"]
        mergePersistedEntries_spec
          [of "mapEntries 0 [Some exampleFile]" "mapEntries 7 [Some exampleFile]"]
  by (simp add: toEntry_def)

section \<open>Preconditions of a job start\<close>

text \<open>
  Claim C5. When the link is not a valid http/https URL, or some visible entry has a status
  other than \<open>uploaded\<close>, or the job is \<open>queued\<close> or \<open>filling\<close>, starting a fill job
  returns the state as it was: no request is added and no field of the job changes.
\<close>

theorem handleStartFill_rejects:
  "\<not> isValidHttpUrl U (formUrl s) \<or> (\<exists>f\<in>set (files s). status f \<noteq> ''uploaded'') \<or>
   jobStatus s = ''queued'' \<or> jobStatus s = ''filling''
   \<Longrightarrow> handleStartFill U s = s \<and> step U e StartFill s = s"
  by (auto simp: handleStartFill_def canStartFill_def allUploadsComplete_def list_all_iff)

theorem handleStartFill_rejects_witness:
  "handleStartFill exampleUrl (exampleState\<lparr>formUrl := ''ftp://x''\<rparr>)
     = exampleState\<lparr>formUrl := ''ftp://x''\<rparr> \<and>
   handleStartFill exampleUrl (exampleState\<lparr>files := newEntries 3 [(''b.pdf'', 10)]\<rparr>)
     = exampleState\<lparr>files := newEntries 3 [(''b.pdf'', 10)]\<rparr> \<and>
   handleStartFill exampleUrl (exampleState\<lparr>jobStatus := ''filling''\<rparr>)
     = exampleState\<lparr>jobStatus := ''filling''\<rparr>"
  using handleStartFill_rejects [of exampleUrl "exampleState\<lparr>formUrl := ''ftp://x''\<rparr>"]
        handleStartFill_rejects [of exampleUrl "exampleState\<lparr>files := newEntries 3 [(''b.pdf'', 10)]\<rparr>"]
        handleStartFill_rejects [of exampleUrl "exampleState\<lparr>jobStatus := ''filling''\<rparr>"]
  by (simp add: isValidHttpUrl_def exampleUrl_def exampleState_def init_def)

text \<open>
  Claim C10. With an empty visible list, starting a fill job returns the state as it was,
  whatever the link and the job status are.
\<close>

theorem handleStartFill_no_files:
  "files s = [] \<Longrightarrow> handleStartFill U s = s \<and> step U e StartFill s = s"
  by (simp add: handleStartFill_def canStartFill_def allUploadsComplete_def)

theorem handleStartFill_no_files_witness:
  "isValidHttpUrl exampleUrl (formUrl (exampleState\<lparr>files := []\<rparr>)) \<and>
   jobStatus (exampleState\<lparr>files := []\<rparr>) = ''idle'' \<and>
   handleStartFill exampleUrl (exampleState\<lparr>files := []\<rparr>) = exampleState\<lparr>files := []\<rparr>"
  using handleStartFill_no_files [of "exampleState\<lparr>files := []\<rparr>" exampleUrl]
  by (simp add: isValidHttpUrl_def exampleUrl_def exampleState_def init_def)

section \<open>The Persistent Manifest Cache\<close>

text \<open>
  Claim C2. The snapshot \<open>persistFilesToCache\<close> builds from any visible list holds only
  entries with a non-empty slug; the call stores that snapshot or (without a document or a
  user id) stores nothing; and after any sequence of events from any state the cookie is the
  one the sequence started with or a snapshot of entries with non-empty slugs.
\<close>

theorem cache_only_slugged:
  "list_all slugged (files_p (manifestPayload now nextFiles)) \<and>
   (cookie (persistFilesToCache now nextFiles s) = cookie s \<or>
    cookie (persistFilesToCache now nextFiles s) = Some (manifestPayload now nextFiles)) \<and>
   (cookie (run U tr s) = cookie s \<or> snapshot_ok (cookie (run U tr s)))"
proof -
  have "cookie_ok (cookie s) (run U tr s)"
    by (rule cookie_ok_run) (simp add: cookie_ok_def)
  then show ?thesis
    using persistFilesToCache_cookie [of now nextFiles s]
    by (simp add: manifestPayload_slugged cookie_ok_def)
qed

theorem cache_only_slugged_witness:
  "snapshot_ok (cookie (run exampleUrl [(exampleEnv, FilesSelected [(''b.pdf'', 10)])] exampleState)) \<and>
   map slug (files (run exampleUrl [(exampleEnv, FilesSelected [(''b.pdf'', 10)])] exampleState))
     = [''abc'', []]"
proof -
  have written: "cookie (run exampleUrl [(exampleEnv, FilesSelected [(''b.pdf'', 10)])] exampleState)
      \<noteq> cookie exampleState"
    by (simp add: exampleState_def handleFilesSelected_def uploadDocument_def updateFile_def
                  updateFiles_def persistFilesToCache_def writeManifestCache_def apiFetch_def
                  Let_def init_def)
  have rows: "map slug (files (run exampleUrl [(exampleEnv, FilesSelected [(''b.pdf'', 10)])] exampleState))
      = [''abc'', []]"
    by (simp add: exampleState_def handleFilesSelected_def uploadDocument_def updateFile_def
                  apiFetch_def Let_def init_def toEntry_def exampleFile_def nullish_def)
  from cache_only_slugged [of 0 "[]" exampleState exampleUrl
         "[(exampleEnv, FilesSelected [(''b.pdf'', 10)])]"] written rows
  show ?thesis by blast
qed

section \<open>The Hydration Orchestrator\<close>

text \<open>
  A hydration that reads the cache, run with a token that is not aborted: what it shows and
  whether it fetches, by the result of the cache read.
\<close>

lemma hydrateUploads_cache_policy:
  assumes "\<not> isAborted signal s"
  shows "case readManifestCache now s of
           None \<Rightarrow>
             files (hydrateUploads now False signal s) = files s \<and>
             manifestLoading (hydrateUploads now False signal s) \<and>
             requests (hydrateUploads now False signal s)
               = requests s @ [(requestSeq s, HydrateReq signal)]
         | Some (S, stale) \<Rightarrow>
             files (hydrateUploads now False signal s)
               = mergePersistedEntries (mapManifestEntriesToState (uuidSeq s) (files_p S)) (files s) \<and>
             manifestLoading (hydrateUploads now False signal s) = stale \<and>
             requests (hydrateUploads now False signal s)
               = (if stale then requests s @ [(requestSeq s, HydrateReq signal)] else requests s)"
  using assms
  by (simp add: hydrateUploads_def fetchManifest_def applyManifestEntries_def Let_def
           split: option.splits prod.splits)

text \<open>
  The rows \<open>mapManifestEntriesToState\<close> builds, written out: the elements that are entries
  with a slug or a file name, numbered from \<open>n\<close>.
\<close>

lemma mapManifestEntriesToState_rows:
  "mapManifestEntriesToState n entries =
     map (\<lambda>(k, f).
            \<lparr> id_f = k,
              name = (if mf_fileName f \<noteq> None \<and> mf_fileName f \<noteq> Some [] then the (mf_fileName f)
                      else if mf_slug f \<noteq> None \<and> mf_slug f \<noteq> Some [] then the (mf_slug f)
                      else ''Stored file''),
              size_f = (case mf_size f of Some b \<Rightarrow> b | None \<Rightarrow> 0),
              status = (case mf_status f of Some v \<Rightarrow> v | None \<Rightarrow> ''uploaded''),
              slug = (case mf_slug f of Some v \<Rightarrow> v | None \<Rightarrow> []),
              s3Url = (case mf_s3Url f of Some v \<Rightarrow> v | None \<Rightarrow> []),
              error = [], deleting = False, persisted = True \<rparr>)
         (List.enumerate n
            [f. Some f \<leftarrow> entries,
                (mf_slug f \<noteq> None \<and> mf_slug f \<noteq> Some []) \<or>
                (mf_fileName f \<noteq> None \<and> mf_fileName f \<noteq> Some [])])"
proof (induction entries arbitrary: n)
  case Nil
  show ?case by (simp add: mapManifestEntriesToState_def)
next
  case (Cons x xs)
  show ?case
  proof (cases x)
    case None
    then show ?thesis
      using Cons.IH [of n] by (simp add: mapManifestEntriesToState_def keepEntry_def)
  next
    case (Some f)
    then show ?thesis
      using Cons.IH [of n] Cons.IH [of "Suc n"]
      by (auto simp: mapManifestEntriesToState_def keepEntry_def truthy_def toEntry_def
                     nullish_def or_else_def split: option.splits)
  qed
qed

text \<open>
  Claim C3. The hydration that reads the cache is the one the mount effect starts, with the
  signal of the controller it has just created. In every state, for the snapshot \<open>S\<close> the
  cookie holds, with timestamp \<open>t\<close>: the visible list becomes one row for each entry of \<open>S\<close>
  that has a slug or a file name, in the order of \<open>S\<close>, with the entry's slug, URL, size and
  status (\<open>uploaded\<close> when it has none), its file name (or its slug) as name, a new
  identifier, no error and \<open>persisted = true\<close>, followed by the transient rows shown before;
  when \<open>now - t\<close> is at most the TTL no request is added and loading ends; when it is more,
  exactly one manifest request is added. When the cache read gives nothing, exactly one
  manifest request is added and the list is unchanged.
\<close>

theorem hydrate_cache_policy:
  "(userId s \<noteq> [] \<and> hasDocument s \<and> cookie s = Some S \<and> updatedAt S = Some t \<longrightarrow>
      (let s' = mountEffects now s in
         files s' =
           map (\<lambda>(k, f).
                  \<lparr> id_f = k,
                    name = (if mf_fileName f \<noteq> None \<and> mf_fileName f \<noteq> Some []
                            then the (mf_fileName f)
                            else if mf_slug f \<noteq> None \<and> mf_slug f \<noteq> Some [] then the (mf_slug f)
                            else ''Stored file''),
                    size_f = (case mf_size f of Some b \<Rightarrow> b | None \<Rightarrow> 0),
                    status = (case mf_status f of Some v \<Rightarrow> v | None \<Rightarrow> ''uploaded''),
                    slug = (case mf_slug f of Some v \<Rightarrow> v | None \<Rightarrow> []),
                    s3Url = (case mf_s3Url f of Some v \<Rightarrow> v | None \<Rightarrow> []),
                    error = [], deleting = False, persisted = True \<rparr>)
               (List.enumerate (uuidSeq s)
                  [f. Some f \<leftarrow> files_p S,
                      (mf_slug f \<noteq> None \<and> mf_slug f \<noteq> Some []) \<or>
                      (mf_fileName f \<noteq> None \<and> mf_fileName f \<noteq> Some [])])
           @ filter (\<lambda>row. \<not> persisted row) (files s) \<and>
         (if now - t \<le> MANIFEST_CACHE_TTL_MS
          then requests s' = requests s \<and> \<not> manifestLoading s'
          else requests s' = requests s @ [(requestSeq s, HydrateReq (Some (length (signals s))))] \<and>
               manifestLoading s'))) \<and>
   (readManifestCache now s = None \<longrightarrow>
      (let s' = mountEffects now s in
         files s' = files s \<and>
         requests s' = requests s @ [(requestSeq s, HydrateReq (Some (length (signals s))))] \<and>
         manifestLoading s'))"
proof -
  define c where "c = length (signals s)"
  define s1 where "s1 = s\<lparr>signals := signals s @ [False], effectSignal := Some c\<rparr>"
  have m: "mountEffects now s = hydrateUploads now False (Some c) s1"
    by (simp add: mountEffects_def newAbortController_def s1_def c_def)
  have fresh: "\<not> isAborted (Some c) s1"
    by (simp add: isAborted_def s1_def c_def)
  have same: "readManifestCache now s1 = readManifestCache now s" "files s1 = files s"
      "requests s1 = requests s" "requestSeq s1 = requestSeq s" "uuidSeq s1 = uuidSeq s"
    by (simp_all add: s1_def readManifestCache_def readCookie_def)
  have hit: "readManifestCache now s = Some (S, \<not> now - t \<le> MANIFEST_CACHE_TTL_MS)"
    if "userId s \<noteq> []" "hasDocument s" "cookie s = Some S" "updatedAt S = Some t"
    using that by (simp add: readManifestCache_def readCookie_def not_le)
  have rows: "mergePersistedEntries (mapManifestEntriesToState (uuidSeq s) (files_p S)) (files s)
      = mapManifestEntriesToState (uuidSeq s) (files_p S) @ filter (\<lambda>row. \<not> persisted row) (files s)"
    by (simp add: mergePersistedEntries_def)
  have cached: "userId s \<noteq> [] \<and> hasDocument s \<and> cookie s = Some S \<and> updatedAt S = Some t \<longrightarrow>
      (let s' = mountEffects now s in
         files s' = mapManifestEntriesToState (uuidSeq s) (files_p S)
                      @ filter (\<lambda>row. \<not> persisted row) (files s) \<and>
         (if now - t \<le> MANIFEST_CACHE_TTL_MS
          then requests s' = requests s \<and> \<not> manifestLoading s'
          else requests s' = requests s @ [(requestSeq s, HydrateReq (Some (length (signals s))))] \<and>
               manifestLoading s'))"
    using hydrateUploads_cache_policy [OF fresh, of now]
    by (auto simp: m same Let_def c_def rows dest!: hit)
  have absent: "readManifestCache now s = None \<longrightarrow>
      (let s' = mountEffects now s in
         files s' = files s \<and>
         requests s' = requests s @ [(requestSeq s, HydrateReq (Some (length (signals s))))] \<and>
         manifestLoading s')"
    using hydrateUploads_cache_policy [OF fresh, of now]
    by (auto simp: m same Let_def c_def)
  from cached [unfolded mapManifestEntriesToState_rows] absent show ?thesis
    by (rule conjI)
qed

theorem hydrate_cache_policy_witness:
  "(let s' = mountEffects 1000
               ((init ''u1'' True (Some examplePayload))
                  \<lparr>files := [\<lparr> id_f = 7, name = ''b.pdf'', size_f = 10, status = ''uploading'',
                               slug = [], s3Url = [], error = [], deleting = False,
                               persisted = False \<rparr>],
                    uuidSeq := 8\<rparr>)
    in files s' =
         [\<lparr> id_f = 8, name = ''a.pdf'', size_f = 100, status = ''uploaded'', slug = ''abc'',
             s3Url = [], error = [], deleting = False, persisted = True \<rparr>,
          \<lparr> id_f = 7, name = ''b.pdf'', size_f = 10, status = ''uploading'', slug = [],
             s3Url = [], error = [], deleting = False, persisted = False \<rparr>] \<and>
       requests s' = [] \<and> \<not> manifestLoading s') \<and>
   (let s' = mountEffects 400000 (init ''u1'' True (Some examplePayload))
    in files s' =
         [\<lparr> id_f = 0, name = ''a.pdf'', size_f = 100, status = ''uploaded'', slug = ''abc'',
             s3Url = [], error = [], deleting = False, persisted = True \<rparr>] \<and>
       requests s' = [(0, HydrateReq (Some 0))] \<and> manifestLoading s') \<and>
   (let s' = mountEffects 1000 (init ''u1'' True None)
    in files s' = [] \<and> requests s' = [(0, HydrateReq (Some 0))] \<and> manifestLoading s')"
  using hydrate_cache_policy
          [of "(init ''u1'' True (Some examplePayload))
                 \<lparr>files := [\<lparr> id_f = 7, name = ''b.pdf'', size_f = 10, status = ''uploading'',
                              slug = [], s3Url = [], error = [], deleting = False,
                              persisted = False \<rparr>],
                   uuidSeq := 8\<rparr>" examplePayload 900 1000]
        hydrate_cache_policy [of "init ''u1'' True (Some examplePayload)" examplePayload 900 400000]
        hydrate_cache_policy [of "init ''u1'' True None" examplePayload 900 1000]
  by (simp add: Let_def init_def examplePayload_def readManifestCache_def readCookie_def
                MANIFEST_CACHE_TTL_MS_def exampleFile_def enumerate_eq_zip)

text \<open>
  The hydration of a refresh: it is started without a token and no token is aborted, so
  the check of line 235 never stops it.
\<close>

lemma refresh_hydrate_has_no_token:
  "requests (step U e RefreshUploads s) = requests s @ [(requestSeq s, HydrateReq None)]"
  "signals (step U e RefreshUploads s) = signals s"
  "isAborted None s = False"
  by (simp_all add: handleRefreshUploads_def hydrateUploads_def fetchManifest_def isAborted_def)




section \<open>The Upload State Machine\<close>

text \<open>
  Claim C8. When the upload of entry \<open>i\<close> is acknowledged, each entry with that identifier
  gets the status the server declares (\<open>uploaded\<close> when it declares none), the slug and URL
  of the reply, the reply's size when it is a number and the file's own size otherwise, no
  error and \<open>persisted = true\<close>; other entries are unchanged. If the status is
  \<open>processing\<close>, exactly one timer is added, with a delay from 1200 ms to 2400 ms, both
  ends included (for \<open>Math.random()\<close> in [0, 1), in double arithmetic); otherwise none. When
  that timer fires, in whatever state, it sets the status of those entries to \<open>uploaded\<close>
  and changes no slug.
\<close>

theorem upload_acknowledged:
  assumes "0 \<le> mathRandom e" and "mathRandom e < 1"
  shows "let s' = uploadDocument_resume e i k (UploadOk st url sl sz) s in
     files s' =
       map (\<lambda>f. if id_f f = i
                 then f\<lparr>status := nullish st ''uploaded'', s3Url := nullish url [],
                         slug := nullish sl [], error := [],
                         size_f := (case sz of Some n \<Rightarrow> n | None \<Rightarrow> k),
                         persisted := True\<rparr>
                 else f) (files s) \<and>
     (if nullish st ''uploaded'' = ''processing''
      then \<exists>d. timers s' = timers s @ [(Suc (timerSeq s), d, MarkUploaded i)] \<and>
               1200 \<le> d \<and> d \<le> 2400
      else timers s' = timers s) \<and>
     files (runCallback e' (MarkUploaded i) s2)
       = map (\<lambda>f. if id_f f = i then f\<lparr>status := ''uploaded''\<rparr> else f) (files s2) \<and>
     map slug (files (runCallback e' (MarkUploaded i) s2)) = map slug (files s2)"
  using jitter_window [OF assms]
  by (simp add: uploadDocument_resume_def updateFile_def Let_def comp_def)

theorem upload_acknowledged_witness:
  "(let s' = uploadDocument_resume exampleEnv 1 10
               (UploadOk (Some ''processing'') None (Some ''abc'') (Some 100)) uploadingState
    in map status (files s') = [''processing''] \<and> map slug (files s') = [''abc''] \<and>
       map size_f (files s') = [100] \<and> map persisted (files s') = [True] \<and>
       timers s' = [(1, 1800, MarkUploaded 1)] \<and>
       map status (files (runCallback exampleEnv (MarkUploaded 1) s')) = [''uploaded''] \<and>
       map slug (files (runCallback exampleEnv (MarkUploaded 1) s')) = [''abc''])"
proof -
  have r: "0 \<le> mathRandom exampleEnv" "mathRandom exampleEnv < 1"
    by (simp_all add: exampleEnv_def)
  have start: "files uploadingState = newEntries 1 [(''b.pdf'', 10)]" "timers uploadingState = []"
      "timerSeq uploadingState = 0"
    by (simp_all add: uploadingState_def exampleState_def init_def)
  have delay: "timers (uploadDocument_resume exampleEnv 1 10
               (UploadOk (Some ''processing'') None (Some ''abc'') (Some 100)) uploadingState)
      = [(1, 1800, MarkUploaded 1)]"
    by (simp add: uploadDocument_resume_def updateFile_def Let_def nullish_def start
                  exampleEnv_def roundDouble_exact)
  show ?thesis
    using upload_acknowledged [OF r, of 1 10 "Some ''processing''" None "Some ''abc''" "Some 100"
            uploadingState exampleEnv
            "uploadDocument_resume exampleEnv 1 10
               (UploadOk (Some ''processing'') None (Some ''abc'') (Some 100)) uploadingState"]
          delay
    by (auto simp: Let_def start nullish_def)
qed

text \<open>
  Claim C9. Deleting an entry without a slug filters it out of the visible list and adds no
  request. Deleting an entry with a slug adds exactly one DELETE request and keeps the
  entry, marked \<open>deleting\<close>; when the request succeeds the entry is filtered out, and when it
  fails the entry stays, with \<open>deleting = false\<close> and \<open>error\<close> set to the failure message
  (\<open>Unable to delete\<close> when the message is empty).
\<close>

theorem delete_outcomes:
  "(if slug file = []
    then files (handleDelete now file s) = filter (\<lambda>f. id_f f \<noteq> id_f file) (files s) \<and>
         requests (handleDelete now file s) = requests s
    else files (handleDelete now file s)
           = map (\<lambda>f. if id_f f = id_f file then f\<lparr>deleting := True, error := []\<rparr> else f) (files s) \<and>
         requests (handleDelete now file s)
           = requests s @ [(requestSeq s, DeleteReq (id_f file) (slug file))]) \<and>
   files (handleDelete_resume now i DeleteOk s) = filter (\<lambda>f. id_f f \<noteq> i) (files s) \<and>
   requests (handleDelete_resume now i DeleteOk s) = requests s \<and>
   files (handleDelete_resume now i (Failure msg) s)
     = map (\<lambda>f. if id_f f = i
               then f\<lparr>deleting := False, error := or_else msg ''Unable to delete''\<rparr>
               else f) (files s) \<and>
   requests (handleDelete_resume now i (Failure msg) s) = requests s"
  by (simp add: handleDelete_def handleDelete_resume_def removeFile_def updateFile_def)

theorem delete_outcomes_witness:
  "files (handleDelete 1000 (hd (newEntries 1 [(''b.pdf'', 10)])) uploadingState) = [] \<and>
   requests (handleDelete 1000 (hd (newEntries 1 [(''b.pdf'', 10)])) uploadingState) = [] \<and>
   requests (handleDelete 1000 (toEntry 0 exampleFile) exampleState) = [(0, DeleteReq 0 ''abc'')] \<and>
   map deleting (files (handleDelete 1000 (toEntry 0 exampleFile) exampleState)) = [True] \<and>
   files (handleDelete_resume 1000 0 DeleteOk exampleState) = [] \<and>
   map error (files (handleDelete_resume 1000 0 (Failure ''Request failed (500)'') exampleState))
     = [''Request failed (500)'']"
proof -
  have start: "files uploadingState = newEntries 1 [(''b.pdf'', 10)]" "requests uploadingState = []"
      "files exampleState = [toEntry 0 exampleFile]" "requests exampleState = []"
      "requestSeq exampleState = 0"
    by (simp_all add: uploadingState_def exampleState_def init_def)
  show ?thesis
    using delete_outcomes [of "hd (newEntries 1 [(''b.pdf'', 10)])" 1000 uploadingState 0 "''x''"]
          delete_outcomes [of "toEntry 0 exampleFile" 1000 exampleState 0 "''Request failed (500)''"]
    by (simp add: start toEntry_def exampleFile_def nullish_def or_else_def)
qed

section \<open>The Job Polling State Machine\<close>

text \<open>
  Claim C4. In every state the component reaches from its initial state, by any sequence of
  events, at most one job-poll timer is pending. \<open>clearExistingPoll\<close>, with which both a
  job start and \<open>scheduleJobPoll\<close> begin, leaves no poll timer pending: a permitted start
  ends with none pending, and scheduling a poll ends with exactly the new one. While the job
  is \<open>queued\<close> or \<open>filling\<close>, a start returns the state as it was.
\<close>

theorem poll_timer_unique:
  "let s = run U tr (init uid doc c) in
     length (pollTimers s) \<le> 1 \<and>
     pollTimers (clearExistingPoll s) = [] \<and>
     (canStartFill U s \<longrightarrow> pollTimers (handleStartFill U s) = []) \<and>
     pollTimers (scheduleJobPoll j l s) = [(Suc (timerSeq s), JOB_POLL_INTERVAL_MS, PollJob j l)] \<and>
     (jobStatus s = ''queued'' \<or> jobStatus s = ''filling'' \<longrightarrow> handleStartFill U s = s)"
proof -
  define s where "s = run U tr (init uid doc c)"
  have ok: "timers_ok s"
    unfolding s_def by (rule timers_ok_reachable)
  have one: "length (pollTimers s) \<le> 1"
    using ok by (rule timers_ok_at_most_one)
  have cleared: "pollTimers (clearExistingPoll s) = []"
    using ok by (rule pollTimers_clearExistingPoll)
  have start: "canStartFill U s \<longrightarrow> pollTimers (handleStartFill U s) = []"
    using cleared by (simp add: handleStartFill_def)
  have sched: "pollTimers (scheduleJobPoll j l s) = [(Suc (timerSeq s), JOB_POLL_INTERVAL_MS, PollJob j l)]"
    using ok by (rule pollTimers_scheduleJobPoll)
  have busy: "jobStatus s = ''queued'' \<or> jobStatus s = ''filling'' \<longrightarrow> handleStartFill U s = s"
    by (auto simp: handleStartFill_def canStartFill_def)
  from one cleared start sched busy show ?thesis
    unfolding s_def Let_def by blast
qed

theorem poll_timer_unique_witness:
  "length (pollTimers (run exampleUrl exampleTrace (init ''u1'' True (Some examplePayload)))) \<le> 1 \<and>
   pollTimers (run exampleUrl exampleTrace (init ''u1'' True (Some examplePayload)))
     = [(1, JOB_POLL_INTERVAL_MS, PollJob ''J1'' ''https://x/form.pdf'')] \<and>
   pollTimers (scheduleJobPoll ''J2'' ''https://x/form.pdf''
       (run exampleUrl exampleTrace (init ''u1'' True (Some examplePayload))))
     = [(2, JOB_POLL_INTERVAL_MS, PollJob ''J2'' ''https://x/form.pdf'')] \<and>
   handleStartFill exampleUrl (run exampleUrl exampleTrace (init ''u1'' True (Some examplePayload)))
     = run exampleUrl exampleTrace (init ''u1'' True (Some examplePayload))"
  using poll_timer_unique [of exampleUrl exampleTrace "''u1''" True "Some examplePayload"
                              "''J2''" "''https://x/form.pdf''"]
  by (simp add: Let_def exampleTrace_eval pollTimers_def)

text \<open>
  Claim C7. When the fetch of a poll settles in a reachable state: on \<open>complete\<close> or
  \<open>error\<close> no poll timer is pending afterwards and the status, the result URL and the error
  text are recorded; on any other status exactly one poll timer is pending, the new one; on
  a failed fetch the job is in \<open>error\<close> with the failure message (or \<open>Polling failed\<close>) and
  no poll timer is pending. In each case no request is added.
\<close>

theorem poll_outcomes:
  assumes "map_of (requests (run U tr (init uid doc c))) h = Some (PollReq j l)"
  shows "let s = run U tr (init uid doc c) in
     (st = ''complete'' \<or> st = ''error'' \<longrightarrow>
        (let s' = step U e (Respond h (PollOk st url)) s in
           pollTimers s' = [] \<and> jobStatus s' = st \<and>
           filledFormUrl s' = nullish url [] \<and>
           jobError s' = (if st = ''error'' then ''Pipeline reported an error.'' else []) \<and>
           requests s' = filter (\<lambda>q. fst q \<noteq> h) (requests s))) \<and>
     (st \<noteq> ''complete'' \<and> st \<noteq> ''error'' \<longrightarrow>
        (let s' = step U e (Respond h (PollOk st url)) s in
           pollTimers s' = [(Suc (timerSeq s), JOB_POLL_INTERVAL_MS, PollJob j l)] \<and>
           jobStatus s' = st \<and> filledFormUrl s' = nullish url [] \<and>
           requests s' = filter (\<lambda>q. fst q \<noteq> h) (requests s))) \<and>
     (let s' = step U e (Respond h (Failure msg)) s in
        pollTimers s' = [] \<and> jobStatus s' = ''error'' \<and>
        jobError s' = or_else msg ''Polling failed'' \<and>
        requests s' = filter (\<lambda>q. fst q \<noteq> h) (requests s))"
proof -
  define s where "s = run U tr (init uid doc c)"
  define s0 where "s0 = s\<lparr>requests := filter (\<lambda>q. fst q \<noteq> h) (requests s)\<rparr>"
  have req: "map_of (requests s) h = Some (PollReq j l)"
    using assms by (simp add: s_def)
  have ok: "timers_ok s0"
    unfolding s0_def s_def by (simp add: timers_ok_reachable)
  have ok_step: "step U e (Respond h (PollOk st url)) s = scheduleJobPoll_resume j l (PollOk st url) s0"
    using req by (simp add: s0_def)
  have fail_step: "step U e (Respond h (Failure msg)) s = scheduleJobPoll_resume j l (Failure msg) s0"
    using req by (simp add: s0_def)
  have sq: "timerSeq s0 = timerSeq s" "requests s0 = filter (\<lambda>q. fst q \<noteq> h) (requests s)"
    by (simp_all add: s0_def)
  have terminal: "st = ''complete'' \<or> st = ''error'' \<longrightarrow>
        (let s' = step U e (Respond h (PollOk st url)) s in
           pollTimers s' = [] \<and> jobStatus s' = st \<and>
           filledFormUrl s' = nullish url [] \<and>
           jobError s' = (if st = ''error'' then ''Pipeline reported an error.'' else []) \<and>
           requests s' = filter (\<lambda>q. fst q \<noteq> h) (requests s))"
    unfolding ok_step
    by (auto simp: scheduleJobPoll_resume_def Let_def pollTimers_clearExistingPoll ok sq)
  have again: "st \<noteq> ''complete'' \<and> st \<noteq> ''error'' \<longrightarrow>
        (let s' = step U e (Respond h (PollOk st url)) s in
           pollTimers s' = [(Suc (timerSeq s), JOB_POLL_INTERVAL_MS, PollJob j l)] \<and>
           jobStatus s' = st \<and> filledFormUrl s' = nullish url [] \<and>
           requests s' = filter (\<lambda>q. fst q \<noteq> h) (requests s))"
    unfolding ok_step
    by (auto simp: scheduleJobPoll_resume_def Let_def pollTimers_scheduleJobPoll ok sq)
  have failed: "let s' = step U e (Respond h (Failure msg)) s in
        pollTimers s' = [] \<and> jobStatus s' = ''error'' \<and>
        jobError s' = or_else msg ''Polling failed'' \<and>
        requests s' = filter (\<lambda>q. fst q \<noteq> h) (requests s)"
    unfolding fail_step
    by (auto simp: scheduleJobPoll_resume_def Let_def pollTimers_clearExistingPoll ok sq)
  from terminal again failed show ?thesis
    unfolding s_def by (simp only: Let_def)
qed

theorem poll_outcomes_witness:
  "(let s' = step exampleUrl exampleEnv (Respond 1 (PollOk ''complete'' (Some ''https://x/y.pdf'')))
               (run exampleUrl pollingTrace (init ''u1'' True (Some examplePayload)))
    in pollTimers s' = [] \<and> jobStatus s' = ''complete'' \<and>
       filledFormUrl s' = ''https://x/y.pdf'' \<and> jobError s' = [] \<and> requests s' = []) \<and>
   (let s' = step exampleUrl exampleEnv (Respond 1 (PollOk ''filling'' None))
               (run exampleUrl pollingTrace (init ''u1'' True (Some examplePayload)))
    in pollTimers s' = [(2, JOB_POLL_INTERVAL_MS, PollJob ''J1'' ''https://x/form.pdf'')] \<and>
       jobStatus s' = ''filling'' \<and> requests s' = []) \<and>
   (let s' = step exampleUrl exampleEnv (Respond 1 (Failure ''Request failed (502)''))
               (run exampleUrl pollingTrace (init ''u1'' True (Some examplePayload)))
    in pollTimers s' = [] \<and> jobStatus s' = ''error'' \<and>
       jobError s' = ''Request failed (502)'' \<and> requests s' = [])"
proof -
  have in_flight: "requests (run exampleUrl pollingTrace (init ''u1'' True (Some examplePayload)))
      = [(1, PollReq ''J1'' ''https://x/form.pdf'')]"
    by (simp add: pollingTrace_def model_defs)
  show ?thesis
    using poll_outcomes [OF pollingTrace_eval(1), of "''complete''" exampleEnv "Some ''https://x/y.pdf''"
                            "''Request failed (502)''"]
          poll_outcomes [OF pollingTrace_eval(1), of "''filling''" exampleEnv None
                            "''Request failed (502)''"]
    by (simp add: Let_def pollingTrace_eval in_flight nullish_def or_else_def)
qed

end
